theory Spec2Isabelle
  imports Main "HOL-Library.Char_ord" "HOL-Library.List_Lexorder"
begin

section \<open>pipoe: a shallow embedding of the resolver's core\<close>

text \<open>
  The development follows \<^verbatim>\<open>src/pipoe/pipoe.py\<close> and \<^verbatim>\<open>src/pipoe/licenses.py\<close>.
  Python strings are \<^typ>\<open>string\<close> (byte lists; the strings are taken to be ASCII, where
  \<^verbatim>\<open>str.isdigit\<close> and \<^verbatim>\<open>int\<close> agree on what a number is, and where the
  lexicographic order of \<^typ>\<open>string\<close> is Python's order on \<^verbatim>\<open>str\<close>). A value that
  may be \<^verbatim>\<open>None\<close> is an \<^typ>\<open>'a option\<close>. An exception is a value: a function that
  can raise returns a sum, with \<^term>\<open>Inl\<close> for the exception.
\<close>

subsection \<open>Exceptions\<close>

text \<open>
  The exceptions the modelled code raises, all of them subclasses of \<^verbatim>\<open>Exception\<close> (what
  \<^verbatim>\<open>except Exception\<close> catches). \<open>NoLicenseFound\<close> is the
  \<^verbatim>\<open>Exception("No license found")\<close> of \<^verbatim>\<open>translate_license\<close>; \<open>Exc\<close> carries the
  message of any exception raised outside the process (the registry, the network, the
  archive).
\<close>

datatype py_error =
    TypeError
  | AttributeError
  | IndexError
  | KeyError
  | EOFError
  | NoLicenseFound
  | Exc string

subsection \<open>String helpers of the Python library\<close>

text \<open>\<^verbatim>\<open>s.split(c)\<close> for a separator of one character: never empty, one more part than
  there are separators.\<close>

fun split_on :: "char \<Rightarrow> string \<Rightarrow> string list" where
  "split_on c [] = [[]]"
| "split_on c (x # xs) =
     (if x = c then [] # split_on c xs
      else (case split_on c xs of
              [] \<Rightarrow> [[x]]
            | p # ps \<Rightarrow> (x # p) # ps))"

text \<open>\<^verbatim>\<open>s.replace(a, b)\<close> for single characters.\<close>

definition replace_char :: "char \<Rightarrow> char \<Rightarrow> string \<Rightarrow> string" where
  "replace_char a b s = map (\<lambda>c. if c = a then b else c) s"

text \<open>\<^verbatim>\<open>s.isdigit()\<close>: non-empty and every character a decimal digit.\<close>

definition is_digit_char :: "char \<Rightarrow> bool" where
  "is_digit_char c = (CHR ''0'' \<le> c \<and> c \<le> CHR ''9'')"

definition isdigit :: "string \<Rightarrow> bool" where
  "isdigit s = (s \<noteq> [] \<and> list_all is_digit_char s)"

text \<open>\<^verbatim>\<open>int(s)\<close> on a string of decimal digits.\<close>

definition int_of_digits :: "string \<Rightarrow> int" where
  "int_of_digits s = foldl (\<lambda>n c. 10 * n + (int (of_char c) - 48)) 0 s"

text \<open>Python's truth value of an optional string: \<^verbatim>\<open>None\<close> and \<^verbatim>\<open>''\<close> are false.\<close>

fun truthy :: "string option \<Rightarrow> bool" where
  "truthy None = False"
| "truthy (Some s) = (s \<noteq> [])"

subsection \<open>The version comparator (\<^verbatim>\<open>compare_versions\<close>)\<close>

text \<open>
  \<^verbatim>\<open>
  def compare_versions(version1: str, version2: str) -> int:
      if not version1:
          return -1
      def normalize(version: str):
          return [int(part) if part.isdigit() else part
                  for part in version.replace("-", ".").split(".")]
      v1_parts = normalize(version1)
      v2_parts = normalize(version2)
      for v1, v2 in zip(v1_parts, v2_parts):
          if v1 == v2:
              continue
          if v1 < v2:
              return -1
          if v1 > v2:
              return 1
      return 0
  \<close>
  A part is an \<^verbatim>\<open>int\<close> or a \<^verbatim>\<open>str\<close>. Python 3 compares an \<^verbatim>\<open>int\<close> and a
  \<^verbatim>\<open>str\<close> unequal under \<^verbatim>\<open>==\<close> and raises \<^verbatim>\<open>TypeError\<close> under \<^verbatim>\<open><\<close>.
  The callers pass \<^verbatim>\<open>None\<close> for a version that is not known, so both arguments are
  optional strings; \<^verbatim>\<open>None.replace\<close> raises \<^verbatim>\<open>AttributeError\<close>.
\<close>

datatype part = PInt int | PStr string

definition normalize :: "string \<Rightarrow> part list" where
  "normalize version =
     map (\<lambda>p. if isdigit p then PInt (int_of_digits p) else PStr p)
       (split_on CHR ''.'' (replace_char CHR ''-'' CHR ''.'' version))"

text \<open>\<^verbatim>\<open>v1 < v2\<close> on parts.\<close>

fun part_less :: "part \<Rightarrow> part \<Rightarrow> py_error + bool" where
  "part_less (PInt a) (PInt b) = Inr (a < b)"
| "part_less (PStr a) (PStr b) = Inr (a < b)"
| "part_less (PInt a) (PStr b) = Inl TypeError"
| "part_less (PStr a) (PInt b) = Inl TypeError"

text \<open>The \<^verbatim>\<open>for\<close> loop over the zipped parts, with the \<^verbatim>\<open>return 0\<close> after it.\<close>

fun compare_parts :: "(part \<times> part) list \<Rightarrow> py_error + int" where
  "compare_parts [] = Inr 0"
| "compare_parts ((v1, v2) # rest) =
     (if v1 = v2 then compare_parts rest
      else (case part_less v1 v2 of
              Inl e \<Rightarrow> Inl e
            | Inr True \<Rightarrow> Inr (- 1)
            | Inr False \<Rightarrow>
                (case part_less v2 v1 of
                   Inl e \<Rightarrow> Inl e
                 | Inr True \<Rightarrow> Inr 1
                 | Inr False \<Rightarrow> compare_parts rest)))"

definition compare_versions :: "string option \<Rightarrow> string option \<Rightarrow> py_error + int" where
  "compare_versions version1 version2 =
     (case version1 of
        None \<Rightarrow> Inr (- 1)
      | Some v1 \<Rightarrow>
          if v1 = [] then Inr (- 1)
          else (case version2 of
                  None \<Rightarrow> Inl AttributeError
                | Some v2 \<Rightarrow> compare_parts (zip (normalize v1) (normalize v2))))"

text \<open>
  The comparator as the specification words it: each version is cut at every dot and
  every hyphen, a purely numeric part is a number and any other part a token, and the
  first pair of parts that differ decides.
\<close>

fun split_dots_hyphens :: "string \<Rightarrow> string list" where
  "split_dots_hyphens [] = [[]]"
| "split_dots_hyphens (x # xs) =
     (if x = CHR ''.'' \<or> x = CHR ''-'' then [] # split_dots_hyphens xs
      else (case split_dots_hyphens xs of
              [] \<Rightarrow> [[x]]
            | p # ps \<Rightarrow> (x # p) # ps))"

definition token :: "string \<Rightarrow> part" where
  "token p = (if isdigit p then PInt (int_of_digits p) else PStr p)"

fun order_of_pair :: "part \<times> part \<Rightarrow> py_error + int" where
  "order_of_pair (PInt a, PInt b) = Inr (if a < b then - 1 else if b < a then 1 else 0)"
| "order_of_pair (PStr a, PStr b) = Inr (if a < b then - 1 else if b < a then 1 else 0)"
| "order_of_pair (PInt a, PStr b) = Inl TypeError"
| "order_of_pair (PStr a, PInt b) = Inl TypeError"

definition first_difference :: "part list \<Rightarrow> part list \<Rightarrow> py_error + int" where
  "first_difference ps qs =
     (case find (\<lambda>(p, q). p \<noteq> q) (zip ps qs) of
        None \<Rightarrow> Inr 0
      | Some pq \<Rightarrow> order_of_pair pq)"

subsection \<open>The license table (\<^verbatim>\<open>licenses.LICENSES\<close>)\<close>

text \<open>
  The dictionary literal of \<^verbatim>\<open>src/pipoe/licenses.py\<close>, entry by entry in the order of the
  file (no key occurs twice). The dictionary is a module global that
  \<^verbatim>\<open>translate_license\<close> may extend; the key it stores under is the declared license as
  the registry gave it, which may be \<^verbatim>\<open>None\<close>, so the keys are optional strings.
\<close>

definition LICENSES_literal :: "(string \<times> string) list" where
  "LICENSES_literal = [
    (''AAL'', ''AAL''),
    (''AFL-1.2'', ''AFL-1.2''),
    (''AFL-2.0'', ''AFL-2.0''),
    (''AFL-2.1'', ''AFL-2.1''),
    (''AFL-3.0'', ''AFL-3.0''),
    (''AGPL-3.0'', ''AGPL-3.0''),
    (''ANTLR-PD'', ''ANTLR-PD''),
    (''APL-1.0'', ''APL-1.0''),
    (''APL2'', ''Apache-2.0''),
    (''APSL-1.0'', ''APSL-1.0''),
    (''APSL-1.1'', ''APSL-1.1''),
    (''APSL-1.2'', ''APSL-1.2''),
    (''APSL-2.0'', ''APSL-2.0''),
    (''ASL'', ''Apache-2.0''),
    (''Adobe'', ''Adobe''),
    (''Apache'', ''Apache-2.0''),
    (''Apache 2.0'', ''Apache-2.0''),
    (''Apache-2.0 license'', ''Apache-2.0''),
    (''Apache License 2.0'', ''Apache-2.0''),
    (''Apache License, Version 2.0'', ''Apache-2.0''),
    (''Apache Software License, Version 2'', ''Apache-2.0''),
    (''Apache Software License'', ''Apache-2.0''),
    (''Apache-2.0 WITH LLVM-exception'', ''Apache-2.0-with-LLVM-exception''),
    (''Apache-1.0'', ''Apache-1.0''),
    (''Apache-1.1'', ''Apache-1.1''),
    (''Apache-2.0'', ''Apache-2.0''),
    (''Artistic-1.0'', ''Artistic-1.0''),
    (''Artistic-2.0'', ''Artistic-2.0''),
    (''BSD'', ''BSD''),
    (''BSD - See ndg/httpsclient/LICENCE file for details'', ''BSD''),
    (''BSD 3-Clause'', ''BSD-3-Clause''),
    (''BSD 3-Clause License'', ''BSD-3-Clause''),
    (''BSD License'', ''BSD''),
    (''BSD or Apache License, Version 2.0'', ''BSD''),
    (''BSD, Public Domain'', ''BSD''),
    (''BSD-2-Clause'', ''BSD-2-Clause''),
    (''BSD-3-Clause'', ''BSD-3-Clause''),
    (''BSD-4-Clause'', ''BSD-4-Clause''),
    (''BSD-derived (http://www.repoze.org/LICENSE.txt)'', ''BSD''),
    (''BSD-like'', ''BSD''),
    (''BSL-1.0'', ''BSL-1.0''),
    (''BitstreamVera'', ''BitstreamVera''),
    (''CATOSL-1.1'', ''CATOSL-1.1''),
    (''CC-BY-1.0'', ''CC-BY-1.0''),
    (''CC-BY-2.0'', ''CC-BY-2.0''),
    (''CC-BY-2.5'', ''CC-BY-2.5''),
    (''CC-BY-3.0'', ''CC-BY-3.0''),
    (''CC-BY-NC-1.0'', ''CC-BY-NC-1.0''),
    (''CC-BY-NC-2.0'', ''CC-BY-NC-2.0''),
    (''CC-BY-NC-2.5'', ''CC-BY-NC-2.5''),
    (''CC-BY-NC-3.0'', ''CC-BY-NC-3.0''),
    (''CC-BY-NC-ND-1.0'', ''CC-BY-NC-ND-1.0''),
    (''CC-BY-NC-ND-2.0'', ''CC-BY-NC-ND-2.0''),
    (''CC-BY-NC-ND-2.5'', ''CC-BY-NC-ND-2.5''),
    (''CC-BY-NC-ND-3.0'', ''CC-BY-NC-ND-3.0''),
    (''CC-BY-NC-SA-1.0'', ''CC-BY-NC-SA-1.0''),
    (''CC-BY-NC-SA-2.0'', ''CC-BY-NC-SA-2.0''),
    (''CC-BY-NC-SA-2.5'', ''CC-BY-NC-SA-2.5''),
    (''CC-BY-NC-SA-3.0'', ''CC-BY-NC-SA-3.0''),
    (''CC-BY-ND-1.0'', ''CC-BY-ND-1.0''),
    (''CC-BY-ND-2.0'', ''CC-BY-ND-2.0''),
    (''CC-BY-ND-2.5'', ''CC-BY-ND-2.5''),
    (''CC-BY-ND-3.0'', ''CC-BY-ND-3.0''),
    (''CC-BY-SA-1.0'', ''CC-BY-SA-1.0''),
    (''CC-BY-SA-2.0'', ''CC-BY-SA-2.0''),
    (''CC-BY-SA-2.5'', ''CC-BY-SA-2.5''),
    (''CC-BY-SA-3.0'', ''CC-BY-SA-3.0''),
    (''CC0-1.0'', ''CC0-1.0''),
    (''CDDL-1.0'', ''CDDL-1.0''),
    (''CECILL-1.0'', ''CECILL-1.0''),
    (''CECILL-2.0'', ''CECILL-2.0''),
    (''CECILL-B'', ''CECILL-B''),
    (''CECILL-C'', ''CECILL-C''),
    (''CPAL-1.0'', ''CPAL-1.0''),
    (''CPL-1.0'', ''CPL-1.0''),
    (''CUA-OPL-1.0'', ''CUA-OPL-1.0''),
    (''ClArtistic'', ''ClArtistic''),
    (''DSSSL'', ''DSSSL''),
    (''Dual License'', ''BSD''),
    (''ECL-1.0'', ''ECL-1.0''),
    (''ECL-2.0'', ''ECL-2.0''),
    (''EDL-1.0'', ''EDL-1.0''),
    (''EFL-1.0'', ''EFL-1.0''),
    (''EFL-2.0'', ''EFL-2.0''),
    (''EPL-1.0'', ''EPL-1.0''),
    (''EPL-2.0'', ''EPL-2.0''),
    (''EUDatagrid'', ''EUDatagrid''),
    (''EUPL-1.0'', ''EUPL-1.0''),
    (''EUPL-1.1'', ''EUPL-1.1''),
    (''Elfutils-Exception'', ''Elfutils-Exception''),
    (''Entessa'', ''Entessa''),
    (''ErlPL-1.1'', ''ErlPL-1.1''),
    (''Expat license'', ''MIT''),
    (''Expat (MIT/X11)'', ''MIT''),
    (''Fair'', ''Fair''),
    (''Frameworx-1.0'', ''Frameworx-1.0''),
    (''FreeType'', ''FreeType''),
    (''GFDL-1.1'', ''GFDL-1.1''),
    (''GFDL-1.2'', ''GFDL-1.2''),
    (''GFDL-1.3'', ''GFDL-1.3''),
    (''GNU GPLv3+'', ''GPL-3.0''),
    (''GNU General Public License Version 3'', ''GPL-3.0''),
    (''GNU LGPL'', ''LGPL-2.0''),
    (''GPL'', ''GPL-1.0''),
    (''GPL V2 or later'', ''GPL-2.0''),
    (''GPL-1.0'', ''GPL-1.0''),
    (''GPL-2-with-bison-exception'', ''GPL-2-with-bison-exception''),
    (''GPL-2.0'', ''GPL-2.0''),
    (''GPL-2.0-with-GCC-exception'', ''GPL-2.0-with-GCC-exception''),
    (''GPL-2.0-with-autoconf-exception'', ''GPL-2.0-with-autoconf-exception''),
    (''GPL-2.0-with-classpath-exception'', ''GPL-2.0-with-classpath-exception''),
    (''GPL-2.0-with-font-exception'', ''GPL-2.0-with-font-exception''),
    (''GPL-3.0'', ''GPL-3.0''),
    (''GPL-3.0-with-GCC-exception'', ''GPL-3.0-with-GCC-exception''),
    (''GPL-3.0-with-autoconf-exception'', ''GPL-3.0-with-autoconf-exception''),
    (''GPLv3+'', ''GPLv3''),
    (''HPND'', ''HPND''),
    (''IPA'', ''IPA''),
    (''IPL-1.0'', ''IPL-1.0''),
    (''ISC'', ''ISC''),
    (''ISC license'', ''ISC''),
    (''LGPL'', ''LGPL-2.0''),
    (''LGPL-2.0'', ''LGPL-2.0''),
    (''LGPL-2.1'', ''LGPL-2.1''),
    (''LGPL-3.0'', ''LGPL-3.0''),
    (''LGPLv2'', ''LGPL-2.0''),
    (''LGPLv2+'', ''LGPL-2.0''),
    (''LGPLv3'', ''LGPL-3.0''),
    (''LPGL, see LICENSE file.'', ''LGPL-1.0''),
    (''LPL-1.02'', ''LPL-1.02''),
    (''LPPL-1.0'', ''LPPL-1.0''),
    (''LPPL-1.1'', ''LPPL-1.1''),
    (''LPPL-1.2'', ''LPPL-1.2''),
    (''LPPL-1.3c'', ''LPPL-1.3c''),
    (''Libpng'', ''Libpng''),
    (''License :: OSI Approved :: Apache Software License'', ''Apache-2.0''),
    (''License :: OSI Approved :: MIT License (http://opensource.org/licenses/MIT)'', ''MIT''),
    (''License :: OSI Approved :: BSD License'', ''BSD''),
    (''License :: OSI Approved :: MIT License'', ''MIT''),
    (''License :: OSI Approved :: Python Software Foundation License'', ''Python-2.0''),
    (''MIT'', ''MIT''),
    (''MIT License'', ''MIT''),
    (''MIT license'', ''MIT''),
    (''MIT/X11'', ''MIT''),
    (''MIT-CMU'', ''MIT-CMU''),
    (''MPL v2'', ''MPL-2.0''),
    (''MPL-1.0'', ''MPL-1.0''),
    (''MPL-1.1'', ''MPL-1.1''),
    (''MPL-2.0'', ''MPL-2.0''),
    (''MPLv2.0, MIT Licences'', ''MIT''),
    (''MS-PL'', ''MS-PL''),
    (''MS-RL'', ''MS-RL''),
    (''MirOS'', ''MirOS''),
    (''Modified BSD License'', ''BSD''),
    (''Motosoto'', ''Motosoto''),
    (''Multics'', ''Multics''),
    (''NASA-1.3'', ''NASA-1.3''),
    (''NCSA'', ''NCSA''),
    (''NGPL'', ''NGPL''),
    (''NPOSL-3.0'', ''NPOSL-3.0''),
    (''NTP'', ''NTP''),
    (''Nauman'', ''Nauman''),
    (''New BSD'', ''BSD''),
    (''Nokia'', ''Nokia''),
    (''OASIS'', ''OASIS''),
    (''OCLC-2.0'', ''OCLC-2.0''),
    (''ODbL-1.0'', ''ODbL-1.0''),
    (''OFL-1.1'', ''OFL-1.1''),
    (''OGTSL'', ''OGTSL''),
    (''OLDAP-2.8'', ''OLDAP-2.8''),
    (''OSL-1.0'', ''OSL-1.0''),
    (''OSL-2.0'', ''OSL-2.0''),
    (''OSL-3.0'', ''OSL-3.0''),
    (''OpenSSL'', ''OpenSSL''),
    (''PD'', ''PD''),
    (''PHP-3.0'', ''PHP-3.0''),
    (''PSF'', ''Python-2.0''),
    (''PSF License'', ''Python-2.0''),
    (''PSF license'', ''Python-2.0''),
    (''PSFL'', ''Python-2.0''),
    (''PostgreSQL'', ''PostgreSQL''),
    (''Proprietary'', ''Proprietary''),
    (''Public Domain'', ''PD''),
    (''Public domain'', ''PD''),
    (''Python Software Foundation License'', ''Python-2.0''),
    (''Python style'', ''Python-2.0''),
    (''Python-2.0'', ''Python-2.0''),
    (''QPL-1.0'', ''QPL-1.0''),
    (''RHeCos-1'', ''RHeCos-1''),
    (''RHeCos-1.1'', ''RHeCos-1.1''),
    (''RPL-1.5'', ''RPL-1.5''),
    (''RPSL-1.0'', ''RPSL-1.0''),
    (''RSCPL'', ''RSCPL''),
    (''Ruby'', ''Ruby''),
    (''SAX-PD'', ''SAX-PD''),
    (''SGI-1'', ''SGI-1''),
    (''SPL-1.0'', ''SPL-1.0''),
    (''Simple-2.0'', ''Simple-2.0''),
    (''Sleepycat'', ''Sleepycat''),
    (''SugarCRM-1'', ''SugarCRM-1''),
    (''SugarCRM-1.1.3'', ''SugarCRM-1.1.3''),
    (''This software released into the public domain. Anyone is free to copy,'', ''PD''),
    (''Two-clause BSD license'', ''BSD-2-Clause''),
    (''UCB'', ''UCB''),
    (''UNKNOWN'', ''CLOSED''),
    (''VSL-1.0'', ''VSL-1.0''),
    (''W3C'', ''W3C''),
    (''WXwindows'', ''WXwindows''),
    (''Watcom-1.0'', ''Watcom-1.0''),
    (''XFree86-1.0'', ''XFree86-1.0''),
    (''XFree86-1.1'', ''XFree86-1.1''),
    (''XSL'', ''XSL''),
    (''Xnet'', ''Xnet''),
    (''YPL-1.1'', ''YPL-1.1''),
    (''ZPL 2.1'', ''ZPL-2.0''),
    (''ZPL-1.1'', ''ZPL-1.1''),
    (''ZPL-2.0'', ''ZPL-2.0''),
    (''ZPL-2.1'', ''ZPL-2.1''),
    (''Zimbra-1.3'', ''Zimbra-1.3''),
    (''Zlib'', ''Zlib''),
    (''eCos-2.0'', ''eCos-2.0''),
    (''gSOAP-1'', ''gSOAP-1''),
    (''gSOAP-1.3b'', ''gSOAP-1.3b''),
    (''http://creativecommons.org/publicdomain/zero/1.0/'', ''PD''),
    (''http://opensource.org/licenses/MIT'', ''MIT''),
    (''public domain, Python, 2-Clause BSD, GPL 3 (see COPYING.txt)'', ''PD'')]"

type_synonym license_map = "string option \<rightharpoonup> string"

definition LICENSES_initial :: license_map where
  "LICENSES_initial = map_of (map (\<lambda>(k, v). (Some k, v)) LICENSES_literal)"

subsection \<open>The license normalizer (\<^verbatim>\<open>translate_license\<close>)\<close>

text \<open>
  \<^verbatim>\<open>
  def translate_license(license, classifiers, default_license):
      try:
          try:
              if license not in [ '', None ]:
                  return licenses.LICENSES[license.strip("'").strip('"')]
          except:
              pass
          for classifier in classifiers:
              if classifier.startswith("License"):
                  return licenses.LICENSES[classifier]
          raise Exception("No license found")
      except:
          if default_license:
              return default_license
          print("Failed to translate license: {}".format(license))
          mapping = input("Please enter a valid license name: ")
          licenses.LICENSES[license] = mapping
          return mapping
  \<close>
  The process state the resolver works on: the two module globals
  (\<^verbatim>\<open>PROCESSED_PACKAGES\<close>, \<^verbatim>\<open>licenses.LICENSES\<close>), the list \<^verbatim>\<open>packages[0]\<close> that one
  root request and all requests below it share, the lines still to be read from standard
  input, and the trace of what was printed and what was asked of the network, in order.
\<close>

record dependency =
  dep_name :: string
  dep_version :: "string option"
  dep_extra :: "string option"

record package =
  pkg_name :: string
  pkg_version :: "string option"
  pkg_summary :: string
  pkg_homepage :: string
  pkg_author :: string
  pkg_author_email :: string
  pkg_license :: string
  pkg_license_file :: string
  pkg_license_md5 :: string
  pkg_src_dir :: string
  pkg_src_uri :: string
  pkg_src_md5 :: string
  pkg_src_sha256 :: string
  pkg_dependencies :: "dependency list"
  pkg_build_dependencies :: "string list"

datatype event =
    Warning string "string option" "string option"
  | Progress string string "string option" "string option"
  | FuzzyVersion "string list"
  | FailedToGather string "string + package" py_error
  | FailedToTranslate "string option"
  | Prompt string
  | GetReleases string
  | GetMetadata string "string option"
  | GetArtifact string string

record state =
  PROCESSED_PACKAGES :: "package list"
  LICENSES :: license_map
  packages0 :: "package list"
  stdin :: "string list"
  trace :: "event list"

definition emit :: "event \<Rightarrow> state \<Rightarrow> state" where
  "emit e st = st\<lparr>trace := trace st @ [e]\<rparr>"

text \<open>\<^verbatim>\<open>s.strip(c)\<close> for a single character \<^verbatim>\<open>c\<close>: the leading and the trailing
  run of \<^verbatim>\<open>c\<close> are removed, nothing else.\<close>

definition strip_char :: "char \<Rightarrow> string \<Rightarrow> string" where
  "strip_char c s = rev (dropWhile (\<lambda>x. x = c) (rev (dropWhile (\<lambda>x. x = c) s)))"

text \<open>\<^verbatim>\<open>s.startswith(p)\<close>.\<close>

definition startswith :: "string \<Rightarrow> string \<Rightarrow> bool" where
  "startswith s p = (take (length p) s = p)"

text \<open>The inner \<^verbatim>\<open>try\<close>: the declared license, when it is neither \<^verbatim>\<open>''\<close> nor
  \<^verbatim>\<open>None\<close>, is looked up with its single quotes and then its double quotes stripped;
  the bare \<^verbatim>\<open>except: pass\<close> turns the \<^verbatim>\<open>KeyError\<close> of a miss into falling
  through.\<close>

definition declared_lookup :: "license_map \<Rightarrow> string option \<Rightarrow> string option" where
  "declared_lookup table license =
     (case license of
        None \<Rightarrow> None
      | Some l \<Rightarrow>
          if l = [] then None
          else table (Some (strip_char CHR 0x22 (strip_char CHR 0x27 l))))"

text \<open>The \<^verbatim>\<open>for\<close> loop over the classifiers and the \<^verbatim>\<open>raise\<close> after it: the first
  classifier that starts with \<^verbatim>\<open>License\<close> is looked up, and a miss there is a
  \<^verbatim>\<open>KeyError\<close> that leaves the loop.\<close>

fun classifier_lookup :: "license_map \<Rightarrow> string list \<Rightarrow> py_error + string" where
  "classifier_lookup table [] = Inl NoLicenseFound"
| "classifier_lookup table (classifier # rest) =
     (if startswith classifier ''License''
      then (case table (Some classifier) of
              None \<Rightarrow> Inl KeyError
            | Some v \<Rightarrow> Inr v)
      else classifier_lookup table rest)"

text \<open>\<^verbatim>\<open>input(prompt)\<close>: the prompt is printed, and a line is taken from standard input;
  at end of input it raises \<^verbatim>\<open>EOFError\<close>.\<close>

definition input :: "string \<Rightarrow> state \<Rightarrow> (py_error + string) \<times> state" where
  "input prompt st =
     (case stdin st of
        [] \<Rightarrow> (Inl EOFError, emit (Prompt prompt) st)
      | line # rest \<Rightarrow> (Inr line, (emit (Prompt prompt) st)\<lparr>stdin := rest\<rparr>))"

text \<open>The last three lines of the handler: the declared license is printed, the operator
  is asked for a mapping, and the answer is stored under the declared license as it was
  passed in (not stripped).\<close>

definition learn_mapping :: "string option \<Rightarrow> state \<Rightarrow> (py_error + string) \<times> state" where
  "learn_mapping license st =
     (case input ''Please enter a valid license name: '' (emit (FailedToTranslate license) st) of
        (Inl e, st') \<Rightarrow> (Inl e, st')
      | (Inr mapping, st') \<Rightarrow>
          (Inr mapping, st'\<lparr>LICENSES := (LICENSES st')(license \<mapsto> mapping)\<rparr>))"

definition translate_license ::
  "string option \<Rightarrow> string list \<Rightarrow> string option \<Rightarrow> state \<Rightarrow> (py_error + string) \<times> state" where
  "translate_license license classifiers default_license st =
     (case declared_lookup (LICENSES st) license of
        Some v \<Rightarrow> (Inr v, st)
      | None \<Rightarrow>
          (case classifier_lookup (LICENSES st) classifiers of
             Inr v \<Rightarrow> (Inr v, st)
           | Inl e \<Rightarrow>
               (case default_license of
                  None \<Rightarrow> learn_mapping license st
                | Some d \<Rightarrow> if d = [] then learn_mapping license st else (Inr d, st))))"

text \<open>
  The first step as the specification words it: the declared string stripped of
  surrounding quotes and white space.
\<close>

definition is_quote_or_space :: "char \<Rightarrow> bool" where
  "is_quote_or_space c =
     (c = CHR 0x27 \<or> c = CHR 0x22 \<or> c = CHR '' '' \<or> c = CHR 0x09 \<or> c = CHR 0x0A \<or>
      c = CHR 0x0B \<or> c = CHR 0x0C \<or> c = CHR 0x0D)"

definition strip_quotes_whitespace :: "string \<Rightarrow> string" where
  "strip_quotes_whitespace s =
     rev (dropWhile is_quote_or_space (rev (dropWhile is_quote_or_space s)))"

subsection \<open>Wildcard versions (\<^verbatim>\<open>get_package_info\<close>, lines 427 to 445)\<close>

text \<open>
  \<^verbatim>\<open>
  if re.search('\*', version):
      url = "https://pypi.org/pypi/{}/json".format(package_name)
      response = urllib.request.urlopen(url).read().decode(encoding="UTF-8")
      info = json.loads(response)
      pv = []
      v = version.split('.')
      print("fuzzy version {} ".format(v))
      for i in info["releases"]:
          tv = i.split('.')
          found=True
          for j in enumerate(v):
              if j[1] == '*':
                  break;
              if j[1] != tv[j[0]]:
                  found=False
                  break
          if found:
              pv.append(i)
      version = pv[-1]
  \<close>
  The inner loop walks the segments of the pattern with their index \<open>j\<close>; reading
  \<^verbatim>\<open>tv[j]\<close> past the end of the candidate raises \<^verbatim>\<open>IndexError\<close>, and so does
  \<^verbatim>\<open>pv[-1]\<close> on an empty list.
\<close>

fun found_loop :: "nat \<Rightarrow> string list \<Rightarrow> string list \<Rightarrow> py_error + bool" where
  "found_loop j [] tv = Inr True"
| "found_loop j (seg # rest) tv =
     (if seg = ''*'' then Inr True
      else if length tv \<le> j then Inl IndexError
      else if seg \<noteq> tv ! j then Inr False
      else found_loop (Suc j) rest tv)"

fun releases_loop :: "string list \<Rightarrow> string list \<Rightarrow> string list \<Rightarrow> py_error + string list" where
  "releases_loop v [] pv = Inr pv"
| "releases_loop v (i # rest) pv =
     (case found_loop 0 v (split_on CHR ''.'' i) of
        Inl e \<Rightarrow> Inl e
      | Inr found \<Rightarrow> releases_loop v rest (if found then pv @ [i] else pv))"

definition last_item :: "'a list \<Rightarrow> py_error + 'a" where
  "last_item pv = (if pv = [] then Inl IndexError else Inr (last pv))"

definition fuzzy_version :: "string \<Rightarrow> string list \<Rightarrow> py_error + string" where
  "fuzzy_version version releases =
     (case releases_loop (split_on CHR ''.'' version) releases [] of
        Inl e \<Rightarrow> Inl e
      | Inr pv \<Rightarrow> last_item pv)"

text \<open>
  The selection as the specification words it: a candidate matches when each segment of
  the pattern that is not a wildcard equals the candidate's segment at the same position,
  and the greatest match in the lexicographic order is taken.
\<close>

definition matches_positionally :: "string list \<Rightarrow> string list \<Rightarrow> bool" where
  "matches_positionally v tv =
     list_all (\<lambda>j. v ! j = ''*'' \<or> (j < length tv \<and> v ! j = tv ! j)) [0..<length v]"

definition greatest_match :: "string \<Rightarrow> string list \<Rightarrow> string option" where
  "greatest_match version releases =
     (case filter (\<lambda>i. matches_positionally (split_on CHR ''.'' version) (split_on CHR ''.'' i))
             releases of
        [] \<Rightarrow> None
      | m # ms \<Rightarrow> Some (fold max ms m))"

text \<open>What the code compares: the segments of the pattern before its first wildcard.\<close>

definition fixed_prefix :: "string list \<Rightarrow> string list" where
  "fixed_prefix v = takeWhile (\<lambda>seg. seg \<noteq> ''*'') v"

definition prefix_matches :: "string list \<Rightarrow> string \<Rightarrow> bool" where
  "prefix_matches v i =
     (take (length (fixed_prefix v)) (split_on CHR ''.'' i) = fixed_prefix v)"

text \<open>A candidate with fewer segments than the pattern has before its first wildcard, and
  equal to the pattern as far as it goes: the comparison reads past its end.\<close>

definition runs_out :: "string list \<Rightarrow> string \<Rightarrow> bool" where
  "runs_out v i =
     (length (split_on CHR ''.'' i) < length (fixed_prefix v) \<and>
      split_on CHR ''.'' i = take (length (split_on CHR ''.'' i)) (fixed_prefix v))"

subsection \<open>The skip check (\<^verbatim>\<open>check_package_already_processed\<close>)\<close>

text \<open>
  \<^verbatim>\<open>
  def check_package_already_processed(package_name, version,
                                      processed_packages, packages):
      all_packages = processed_packages + packages[0]
      for package in all_packages:
          if package_name == package.name:
              result = compare_versions(version, package.version)
              if result != 1:
                  return True
              print("  {} [WARNING] Package {} version needed {} found {}"
                    .format("|", package_name, version, package.version))
      return False
  \<close>
  An exception of the comparator leaves the function; the warnings printed before it stay
  printed.
\<close>

fun all_packages_loop ::
  "string \<Rightarrow> string option \<Rightarrow> package list \<Rightarrow> state \<Rightarrow> (py_error + bool) \<times> state" where
  "all_packages_loop package_name version [] st = (Inr False, st)"
| "all_packages_loop package_name version (package # rest) st =
     (if package_name = pkg_name package
      then (case compare_versions version (pkg_version package) of
              Inl e \<Rightarrow> (Inl e, st)
            | Inr result \<Rightarrow>
                if result \<noteq> 1 then (Inr True, st)
                else all_packages_loop package_name version rest
                       (emit (Warning package_name version (pkg_version package)) st))
      else all_packages_loop package_name version rest st)"

definition check_package_already_processed ::
  "string \<Rightarrow> string option \<Rightarrow> package list \<Rightarrow> package list \<Rightarrow> state
     \<Rightarrow> (py_error + bool) \<times> state" where
  "check_package_already_processed package_name version processed_packages packages st =
     all_packages_loop package_name version (processed_packages @ packages) st"

subsection \<open>Seeding the processed list (\<^verbatim>\<open>parse_existing_packages\<close>)\<close>

text \<open>
  \<^verbatim>\<open>
  for line in infile:
      line = line.strip()
      if "==" in line:
          name = line.split("==")[0]
          version = line.split("==")[1]
      else:
          name = line
          version = None
      nope = ''
      package = Package(name, version, nope, ... , nope)
      PROCESSED_PACKAGES.append(package)
  \<close>
  The lines are taken as already stripped of surrounding white space. The last two
  fields, which the resolver reads as lists, hold the empty string; iterating it yields
  nothing, as the empty list does.
\<close>

text \<open>\<^verbatim>\<open>line.split("==")\<close>: cut at each occurrence of the separator, left to right.\<close>

fun split_eqeq :: "string \<Rightarrow> string list" where
  "split_eqeq (a # b # rest) =
     (if a = CHR ''='' \<and> b = CHR ''='' then [] # split_eqeq rest
      else (case split_eqeq (b # rest) of
              [] \<Rightarrow> [[a]]
            | p # ps \<Rightarrow> (a # p) # ps))"
| "split_eqeq [a] = [[a]]"
| "split_eqeq [] = [[]]"

definition existing_package :: "string \<Rightarrow> package" where
  "existing_package line =
     (case split_eqeq line of
        name # version # _ \<Rightarrow>
          \<lparr>pkg_name = name, pkg_version = Some version, pkg_summary = [], pkg_homepage = [],
           pkg_author = [], pkg_author_email = [], pkg_license = [], pkg_license_file = [],
           pkg_license_md5 = [], pkg_src_dir = [], pkg_src_uri = [], pkg_src_md5 = [],
           pkg_src_sha256 = [], pkg_dependencies = [], pkg_build_dependencies = []\<rparr>
      | _ \<Rightarrow>
          \<lparr>pkg_name = line, pkg_version = None, pkg_summary = [], pkg_homepage = [],
           pkg_author = [], pkg_author_email = [], pkg_license = [], pkg_license_file = [],
           pkg_license_md5 = [], pkg_src_dir = [], pkg_src_uri = [], pkg_src_md5 = [],
           pkg_src_sha256 = [], pkg_dependencies = [], pkg_build_dependencies = []\<rparr>)"

definition parse_existing_packages :: "string list \<Rightarrow> state \<Rightarrow> state" where
  "parse_existing_packages lines st =
     st\<lparr>PROCESSED_PACKAGES := PROCESSED_PACKAGES st @ map existing_package lines\<rparr>"

subsection \<open>The resolution engine (\<^verbatim>\<open>get_package_info\<close>)\<close>

text \<open>
  What the engine reads from outside the process is a parameter of the run. The registry
  answers two queries: the release list of a package (the keys of \<^verbatim>\<open>info["releases"]\<close>
  in the order of the document), and the metadata of a package at a version or at its
  latest version. \<open>source_of\<close> stands for lines 466 to 481, the choice of the source
  distribution among the files the metadata lists: it reads the metadata only, and gives
  the URL or raises (\<^verbatim>\<open>No sdist package can be found.\<close>). \<open>artifact_of\<close> stands for
  lines 482 to 490 and the parser of \<^verbatim>\<open>get_package_dependencies\<close>: the download and
  inspection of the archive by \<^verbatim>\<open>get_package_file_info\<close>, the specifiers of
  \<^verbatim>\<open>requires_dist\<close> (fetched from the archive when the registry has none), each parsed
  by \<^verbatim>\<open>parse_requires_dist\<close>. Each of the four either gives its result or raises.
\<close>

record info =
  info_version :: string
  info_summary :: string
  info_home_page :: string
  info_author :: string
  info_author_email :: string
  info_license :: "string option"
  info_classifiers :: "string list"

record artifact =
  src_md5 :: string
  src_sha256 :: string
  src_dir :: string
  license_file :: string
  license_md5 :: string
  build_deps :: "string list"
  requires_dist :: "dependency list"

record run =
  releases_of :: "string \<Rightarrow> py_error + string list"
  metadata_of :: "string \<Rightarrow> string option \<Rightarrow> py_error + info"
  source_of :: "string \<Rightarrow> string \<Rightarrow> info \<Rightarrow> py_error + string"
  artifact_of :: "string \<Rightarrow> string \<Rightarrow> string \<Rightarrow> info \<Rightarrow> py_error + artifact"
  follow_extras :: bool
  default_license :: "string option"

text \<open>A version that Python takes as true: neither \<^verbatim>\<open>None\<close> nor \<^verbatim>\<open>''\<close>.\<close>

definition pinned :: "string option \<Rightarrow> string option" where
  "pinned version = (case version of None \<Rightarrow> None | Some v \<Rightarrow> if v = [] then None else Some v)"

text \<open>\<^verbatim>\<open>get_package_dependencies\<close>, on the parsed specifiers: a dependency with an extra is
  left out unless extras are followed.\<close>

definition get_package_dependencies :: "dependency list \<Rightarrow> bool \<Rightarrow> dependency list" where
  "get_package_dependencies requires follow =
     filter (\<lambda>d. \<not> (truthy (dep_extra d) \<and> \<not> follow)) requires"

text \<open>\<^verbatim>\<open>indent_str\<close> (lines 411 to 413).\<close>

definition indent_str :: "nat \<Rightarrow> string" where
  "indent_str indent = (if indent = 0 then [] else ''|'' @ replicate (indent - 2) CHR ''-'' @ '' '')"

text \<open>\<^verbatim>\<open>summary.replace('\n', ' \\\n')\<close> (line 458): each newline becomes a blank, a
  backslash and a newline.\<close>

definition escape_newlines :: "string \<Rightarrow> string" where
  "escape_newlines summary =
     concat (map (\<lambda>c. if c = CHR 0x0A then [CHR '' '', CHR 0x5C, CHR 0x0A] else [c]) summary)"

text \<open>Lines 452 to 510: the metadata query, the license, the source distribution, the
  artifact, and the \<^verbatim>\<open>Package\<close> built from them. \<open>url_version\<close> is the version the
  URL is built with (none for the latest); \<open>version\<close> is the version the record gets
  unless it is empty. The archive is fetched only once a source distribution was found.\<close>

definition describe ::
  "run \<Rightarrow> string \<Rightarrow> string option \<Rightarrow> string option \<Rightarrow> state \<Rightarrow> (py_error + package) \<times> state" where
  "describe r package_name url_version version st =
     (case metadata_of r package_name url_version of
        Inl e \<Rightarrow> (Inl e, emit (GetMetadata package_name url_version) st)
      | Inr i \<Rightarrow>
          (case translate_license (info_license i) (info_classifiers i) (default_license r)
                  (emit (GetMetadata package_name url_version) st) of
             (Inl e, st') \<Rightarrow> (Inl e, st')
           | (Inr license, st') \<Rightarrow>
               (case source_of r package_name
                       (case pinned version of None \<Rightarrow> info_version i | Some v \<Rightarrow> v) i of
                  Inl e \<Rightarrow> (Inl e, st')
                | Inr uri \<Rightarrow>
                    (case artifact_of r package_name
                            (case pinned version of None \<Rightarrow> info_version i | Some v \<Rightarrow> v) uri i of
                       Inl e \<Rightarrow>
                         (Inl e, emit (GetArtifact package_name
                            (case pinned version of None \<Rightarrow> info_version i | Some v \<Rightarrow> v)) st')
                     | Inr a \<Rightarrow>
                         (Inr \<lparr>pkg_name = package_name,
                               pkg_version =
                                 Some (case pinned version of
                                         None \<Rightarrow> info_version i | Some v \<Rightarrow> v),
                               pkg_summary = escape_newlines (info_summary i),
                               pkg_homepage = info_home_page i,
                               pkg_author = info_author i,
                               pkg_author_email = info_author_email i,
                               pkg_license = license,
                               pkg_license_file = license_file a,
                               pkg_license_md5 = license_md5 a,
                               pkg_src_dir = src_dir a,
                               pkg_src_uri = uri,
                               pkg_src_md5 = src_md5 a,
                               pkg_src_sha256 = src_sha256 a,
                               pkg_dependencies =
                                 get_package_dependencies (requires_dist a) (follow_extras r),
                               pkg_build_dependencies = build_deps a\<rparr>,
                          emit (GetArtifact package_name
                            (case pinned version of
                               None \<Rightarrow> info_version i | Some v \<Rightarrow> v)) st')))))"

text \<open>Lines 426 to 510: the concrete version first (for a pattern with a wildcard, from
  the release list), then the rest.\<close>

definition gather :: "run \<Rightarrow> string \<Rightarrow> string option \<Rightarrow> state \<Rightarrow> (py_error + package) \<times> state" where
  "gather r package_name version st =
     (case pinned version of
        None \<Rightarrow> describe r package_name None None st
      | Some v \<Rightarrow>
          if CHR ''*'' \<in> set v
          then (case releases_of r package_name of
                  Inl e \<Rightarrow> (Inl e, emit (GetReleases package_name) st)
                | Inr releases \<Rightarrow>
                    (case fuzzy_version v releases of
                       Inl e \<Rightarrow>
                         (Inl e, emit (FuzzyVersion (split_on CHR ''.'' v))
                                   (emit (GetReleases package_name) st))
                     | Inr v' \<Rightarrow>
                         describe r package_name (Some v') (Some v')
                           (emit (FuzzyVersion (split_on CHR ''.'' v))
                              (emit (GetReleases package_name) st))))
          else describe r package_name (Some v) (Some v) st)"

text \<open>
  The outcome of a call: it returns (the value returned is \<^verbatim>\<open>packages[0]\<close>, the field
  \<open>packages0\<close> of the state), it raises, or the bound on the depth of the recursion
  is used up.
\<close>

datatype outcome = OutOfFuel | Raised py_error state | Returned state

text \<open>The \<^verbatim>\<open>for dependency in dependencies\<close> loop, over the call it makes for each.\<close>

fun walk :: "(dependency \<Rightarrow> state \<Rightarrow> outcome) \<Rightarrow> dependency list \<Rightarrow> state \<Rightarrow> outcome" where
  "walk call [] st = Returned st"
| "walk call (dependency # rest) st =
     (case call dependency st of
        OutOfFuel \<Rightarrow> OutOfFuel
      | Raised e st' \<Rightarrow> Raised e st'
      | Returned st' \<Rightarrow> walk call rest st')"

text \<open>The handler: \<^verbatim>\<open>except Exception as e: print(" {} [ERROR] Failed to gather {} ({})")\<close>.
  The variable \<^verbatim>\<open>package\<close> it prints is the argument until line 494 and the record from
  there on.\<close>

definition failed :: "nat \<Rightarrow> string + package \<Rightarrow> py_error \<Rightarrow> state \<Rightarrow> state" where
  "failed indent package e st = emit (FailedToGather (indent_str indent) package e) st"

text \<open>
  \<^verbatim>\<open>
  def get_package_info(package, version=None, packages=None, indent=0, extra=None,
                       follow_extras=False, default_license=None):
      global PROCESSED_PACKAGES
      package_name = package.split('[')[0]
      if not packages:
          packages = [[]]
      elif check_package_already_processed(package_name, version,
                                           PROCESSED_PACKAGES, packages):
          return packages[0]
      ...
      print("  {}{}{}{}".format(indent_str, package, extra_str, ...))
      try:
          ... lines 426 to 510 ...
          packages[0].append(package)
          PROCESSED_PACKAGES.append(package)
          for dependency in dependencies:
              get_package_info(dependency.name, version=dependency.version,
                  packages=packages, indent=indent + 2, extra=dependency.extra, ...)
      except Exception as e:
          print("  {} [ERROR] Failed to gather {} ({})".format(indent_str, package, str(e)))
      return packages[0]
  \<close>
  The argument \<open>packages\<close> is \<^verbatim>\<open>None\<close> for a root request and the one-element list
  that holds the shared list for every request below it, so it is true exactly for the
  requests below a root: the model passes that truth value, and a root starts with an
  empty shared list. The first argument bounds the depth of the recursion.
\<close>

fun get_package_info ::
  "nat \<Rightarrow> run \<Rightarrow> string \<Rightarrow> string option \<Rightarrow> bool \<Rightarrow> nat \<Rightarrow> string option \<Rightarrow> state \<Rightarrow> outcome" where
  "get_package_info 0 r package version packages indent extra st = OutOfFuel"
| "get_package_info (Suc fuel) r package version packages indent extra st =
     (case (if \<not> packages then (Inr False, st\<lparr>packages0 := []\<rparr>)
            else check_package_already_processed (takeWhile (\<lambda>c. c \<noteq> CHR ''['') package)
                   version (PROCESSED_PACKAGES st) (packages0 st) st) of
        (Inl e, st1) \<Rightarrow> Raised e st1
      | (Inr True, st1) \<Rightarrow> Returned st1
      | (Inr False, st1) \<Rightarrow>
          (case gather r (takeWhile (\<lambda>c. c \<noteq> CHR ''['') package) version
                  (emit (Progress (indent_str indent) package (pinned extra) (pinned version)) st1) of
             (Inl e, st2) \<Rightarrow> Returned (failed indent (Inl package) e st2)
           | (Inr p, st2) \<Rightarrow>
               (case walk (\<lambda>dependency.
                             get_package_info fuel r (dep_name dependency) (dep_version dependency)
                               True (indent + 2) (dep_extra dependency))
                       (pkg_dependencies p)
                       (st2\<lparr>packages0 := packages0 st2 @ [p],
                            PROCESSED_PACKAGES := PROCESSED_PACKAGES st2 @ [p]\<rparr>) of
                  OutOfFuel \<Rightarrow> OutOfFuel
                | Raised e st3 \<Rightarrow> Returned (failed indent (Inr p) e st3)
                | Returned st3 \<Rightarrow> Returned st3)))"

text \<open>
  A bound on the depth of the dependency graph below a request, as the registry describes
  it: the dependencies a request would walk are those of the artifact of its concrete
  version, whatever the state of the process is.
\<close>

definition dependencies_of :: "run \<Rightarrow> string \<Rightarrow> string option \<Rightarrow> dependency list" where
  "dependencies_of r package version =
     (case (case pinned version of
              None \<Rightarrow> Inr None
            | Some v \<Rightarrow>
                if CHR ''*'' \<in> set v
                then (case releases_of r (takeWhile (\<lambda>c. c \<noteq> CHR ''['') package) of
                        Inl e \<Rightarrow> Inl e
                      | Inr releases \<Rightarrow>
                          (case fuzzy_version v releases of
                             Inl e \<Rightarrow> Inl e
                           | Inr v' \<Rightarrow> Inr (Some v')))
                else Inr (Some v)) of
        Inl e \<Rightarrow> []
      | Inr url_version \<Rightarrow>
          (case metadata_of r (takeWhile (\<lambda>c. c \<noteq> CHR ''['') package) url_version of
             Inl e \<Rightarrow> []
           | Inr i \<Rightarrow>
               (case source_of r (takeWhile (\<lambda>c. c \<noteq> CHR ''['') package)
                       (case pinned url_version of None \<Rightarrow> info_version i | Some v \<Rightarrow> v) i of
                  Inl e \<Rightarrow> []
                | Inr uri \<Rightarrow>
                    (case artifact_of r (takeWhile (\<lambda>c. c \<noteq> CHR ''['') package)
                            (case pinned url_version of None \<Rightarrow> info_version i | Some v \<Rightarrow> v)
                            uri i of
                       Inl e \<Rightarrow> []
                     | Inr a \<Rightarrow> get_package_dependencies (requires_dist a) (follow_extras r)))))"

fun depth_within :: "nat \<Rightarrow> run \<Rightarrow> string \<Rightarrow> string option \<Rightarrow> bool" where
  "depth_within 0 r package version = False"
| "depth_within (Suc n) r package version =
     list_all (\<lambda>d. depth_within n r (dep_name d) (dep_version d))
       (dependencies_of r package version)"

text \<open>One state grows into another: the same packages are appended to the shared list and
  to the processed list, and nothing is taken away from either.\<close>

definition grows :: "state \<Rightarrow> state \<Rightarrow> bool" where
  "grows st st' =
     (take (length (packages0 st)) (packages0 st') = packages0 st \<and>
      take (length (PROCESSED_PACKAGES st)) (PROCESSED_PACKAGES st') = PROCESSED_PACKAGES st \<and>
      drop (length (packages0 st)) (packages0 st') =
        drop (length (PROCESSED_PACKAGES st)) (PROCESSED_PACKAGES st'))"

text \<open>What a call returned (\<^verbatim>\<open>packages[0]\<close>) and what it printed and fetched, when it
  returned.\<close>

definition result_of :: "outcome \<Rightarrow> package list" where
  "result_of out = (case out of Returned st \<Rightarrow> packages0 st | _ \<Rightarrow> [])"

definition trace_of :: "outcome \<Rightarrow> event list" where
  "trace_of out = (case out of Returned st \<Rightarrow> trace st | _ \<Rightarrow> [])"

subsection \<open>An example registry\<close>

text \<open>
  A small registry to run the engine on. Package \<open>A\<close> requires \<open>B==1.0\<close>, \<open>D\<close> and
  \<open>C\<close>, in this order; \<open>C\<close> requires \<open>B==2.0\<close>; \<open>F\<close> requires \<open>B==1.0.0\<close> and
  \<open>C\<close>; \<open>B\<close> requires nothing; \<open>D\<close> has no source distribution; no other package is
  known to the registry. The latest version of every package is 1.0, and the registry
  answers for any version that is asked for; it lists the releases 1.0, 2.1.0, 2.0 and
  3.0 of \<open>B\<close>, in this order, and no release list for the other packages. No package
  declares a license, and the run has the default license \<open>CLOSED\<close>.
\<close>

definition requirement :: "string \<Rightarrow> string option \<Rightarrow> dependency" where
  "requirement n v = \<lparr>dep_name = n, dep_version = v, dep_extra = None\<rparr>"

definition example_info :: "string \<Rightarrow> info" where
  "example_info v =
     \<lparr>info_version = v, info_summary = [], info_home_page = [], info_author = [],
      info_author_email = [], info_license = None, info_classifiers = []\<rparr>"

definition example_artifact :: "dependency list \<Rightarrow> artifact" where
  "example_artifact ds =
     \<lparr>src_md5 = [], src_sha256 = [], src_dir = [],
      license_file = ''LICENSE'', license_md5 = [], build_deps = [], requires_dist = ds\<rparr>"

definition example_requires :: "string \<Rightarrow> dependency list" where
  "example_requires n =
     (if n = ''A'' then [requirement ''B'' (Some ''1.0''), requirement ''D'' None,
                         requirement ''C'' None]
      else if n = ''C'' then [requirement ''B'' (Some ''2.0'')]
      else if n = ''F'' then [requirement ''B'' (Some ''1.0.0''), requirement ''C'' None]
      else [])"

definition example_run :: run where
  "example_run =
     \<lparr>releases_of = (\<lambda>n.
        if n = ''B'' then Inr [''1.0'', ''2.1.0'', ''2.0'', ''3.0'']
        else Inl (Exc ''HTTP Error 404: Not Found'')),
      metadata_of = (\<lambda>n v.
        if n \<in> set [''A'', ''B'', ''C'', ''D'', ''F'']
        then Inr (example_info (case v of None \<Rightarrow> ''1.0'' | Some x \<Rightarrow> x))
        else Inl (Exc ''HTTP Error 404: Not Found'')),
      source_of = (\<lambda>n v i.
        if n = ''D'' then Inl (Exc ''No sdist package can be found.'')
        else Inr ''sdist.tar.gz''),
      artifact_of = (\<lambda>n v uri i. Inr (example_artifact (example_requires n))),
      follow_extras = False,
      default_license = Some ''CLOSED''\<rparr>"

text \<open>The \<^verbatim>\<open>Package\<close> the engine builds from these answers.\<close>

definition example_package :: "string \<Rightarrow> string \<Rightarrow> package" where
  "example_package n v =
     \<lparr>pkg_name = n, pkg_version = Some v, pkg_summary = [], pkg_homepage = [],
      pkg_author = [], pkg_author_email = [], pkg_license = ''CLOSED'',
      pkg_license_file = ''LICENSE'', pkg_license_md5 = [], pkg_src_dir = [],
      pkg_src_uri = ''sdist.tar.gz'', pkg_src_md5 = [], pkg_src_sha256 = [],
      pkg_dependencies = example_requires n, pkg_build_dependencies = []\<rparr>"

text \<open>The state of a process that has just started.\<close>

definition initial_state :: state where
  "initial_state =
     \<lparr>PROCESSED_PACKAGES = [], LICENSES = LICENSES_initial, packages0 = [], stdin = [],
      trace = []\<rparr>"

section \<open>Properties of the version comparator\<close>

lemma split_on_not_Nil: "split_on c s \<noteq> []"
  by (induction s) (auto split: list.splits)

lemma split_dots_hyphens_eq:
  "split_on CHR ''.'' (replace_char CHR ''-'' CHR ''.'' s) = split_dots_hyphens s"
  by (induction s) (auto simp: replace_char_def split: list.splits)

lemma normalize_eq_tokens: "normalize v = map token (split_dots_hyphens v)"
  unfolding normalize_def split_dots_hyphens_eq token_def ..

lemma normalize_not_Nil: "normalize v \<noteq> []"
  by (simp add: normalize_def split_on_not_Nil)

lemma compare_parts_same: "compare_parts (zip ps ps) = Inr 0"
  by (induction ps) auto

lemma part_less_swap_cases:
  "v1 \<noteq> v2 \<Longrightarrow>
     (part_less v1 v2 = Inl TypeError \<and> part_less v2 v1 = Inl TypeError) \<or>
     (part_less v1 v2 = Inr True \<and> part_less v2 v1 = Inr False) \<or>
     (part_less v1 v2 = Inr False \<and> part_less v2 v1 = Inr True)"
  by (cases v1; cases v2) auto

lemma compare_parts_swap:
  "compare_parts (map prod.swap ps) = map_sum id uminus (compare_parts ps)"
proof (induction ps)
  case Nil
  show ?case by simp
next
  case (Cons pq ps)
  obtain v1 v2 where pq: "pq = (v1, v2)" by (cases pq)
  show ?case
  proof (cases "v1 = v2")
    case True
    with Cons pq show ?thesis by simp
  next
    case False
    from part_less_swap_cases [OF False] show ?thesis
      using False pq by auto
  qed
qed

lemma zip_swap: "zip ys xs = map prod.swap (zip xs ys)"
  by (induction xs arbitrary: ys) (auto simp: zip_Cons1 split: list.splits)

lemma compare_parts_first_difference:
  "compare_parts (zip ps qs) = first_difference ps qs"
proof (induction ps arbitrary: qs)
  case Nil
  show ?case by (simp add: first_difference_def)
next
  case (Cons p ps)
  show ?case
  proof (cases qs)
    case Nil
    then show ?thesis by (simp add: first_difference_def)
  next
    case (Cons q qs')
    show ?thesis
    proof (cases "p = q")
      case True
      with Cons Cons.IH [of qs'] show ?thesis by (simp add: first_difference_def)
    next
      case False
      with Cons show ?thesis
        by (cases p; cases q) (auto simp: first_difference_def)
    qed
  qed
qed

text \<open>
  C4 (the comparator never raises). The docstring of \<^verbatim>\<open>compare_versions\<close> promises one
  of -1, 0 and 1. The versions \<^verbatim>\<open>1.0.0\<close> and \<^verbatim>\<open>1.0rc1\<close> agree on their first part;
  the second parts are the number 0 and the token \<^verbatim>\<open>0rc1\<close>, which Python 3 refuses to
  order: the call raises \<^verbatim>\<open>TypeError\<close>.
\<close>

theorem compare_versions_raises_on_mixed_parts:
  "compare_versions (Some ''1.0.0'') (Some ''1.0rc1'') = Inl TypeError"
  by (simp add: compare_versions_def normalize_def replace_char_def isdigit_def
      is_digit_char_def int_of_digits_def)

text \<open>
  C3, as the specification states it (\<^verbatim>\<open>compare(a,b) == -compare(b,a)\<close> for all version
  strings), fails at the empty string: an empty first operand compares as less whatever
  the second is, so \<^verbatim>\<open>compare('', '')\<close> is -1 and not its own negation.
\<close>

theorem compare_versions_antisym_counterexample:
  "compare_versions (Some '''') (Some '''') = Inr (- 1) \<and>
   compare_versions (Some '''') (Some '''') \<noteq>
     map_sum id uminus (compare_versions (Some '''') (Some ''''))"
  by (simp add: compare_versions_def)

text \<open>
  C3, amended: for non-empty version strings the two orders of the arguments agree up to
  sign. Either both calls raise the same exception (the first pair of parts that differ
  is a number against a token), or both return and the results are negations of each
  other.
\<close>

theorem compare_versions_antisym:
  "a \<noteq> [] \<Longrightarrow> b \<noteq> [] \<Longrightarrow>
   compare_versions (Some a) (Some b) = map_sum id uminus (compare_versions (Some b) (Some a))"
  by (simp add: compare_versions_def zip_swap [of "normalize a" "normalize b"]
      compare_parts_swap)

theorem compare_versions_antisym_witness:
  "''1.2.3'' \<noteq> [] \<and> ''1.2.10'' \<noteq> [] \<and>
   compare_versions (Some ''1.2.3'') (Some ''1.2.10'') = Inr (- 1) \<and>
   compare_versions (Some ''1.2.10'') (Some ''1.2.3'') = Inr 1"
proof -
  have l: "compare_versions (Some ''1.2.3'') (Some ''1.2.10'') = Inr (- 1)"
    by (simp add: compare_versions_def normalize_def replace_char_def isdigit_def
        is_digit_char_def int_of_digits_def)
  have "compare_versions (Some ''1.2.10'') (Some ''1.2.3'') =
        map_sum id uminus (compare_versions (Some ''1.2.3'') (Some ''1.2.10''))"
    using compare_versions_antisym [of "''1.2.10''" "''1.2.3''"] by simp
  with l show ?thesis by simp
qed

text \<open>
  C5, as the specification states it, asks \<^verbatim>\<open>compare(a,a) == equal\<close> of every version
  string and also that an empty first operand compares as less. At the empty string the
  code does the second: \<^verbatim>\<open>compare('', '')\<close> is -1, not 0.
\<close>

theorem compare_versions_refl_counterexample:
  "compare_versions (Some '''') (Some '''') \<noteq> Inr 0"
  by (simp add: compare_versions_def)

text \<open>
  C5, amended: reflexivity holds for the non-empty version strings. For a non-empty first
  operand the comparator is the first difference of the two token lists, each version
  cut at dots and hyphens with numeric parts read as numbers; only the overlapping
  prefix of the two lists is looked at, so a version compares equal to itself and to any
  version that extends it by further parts. An absent or empty first operand compares
  as less, whatever the second operand is.
\<close>

theorem compare_versions_first_difference:
  "(a \<noteq> [] \<longrightarrow>
      compare_versions (Some a) (Some b) =
        first_difference (map token (split_dots_hyphens a)) (map token (split_dots_hyphens b))) \<and>
   (a \<noteq> [] \<longrightarrow>
      compare_versions (Some a) (Some b) =
        first_difference
          (take (min (length (normalize a)) (length (normalize b))) (normalize a))
          (take (min (length (normalize a)) (length (normalize b))) (normalize b))) \<and>
   (a \<noteq> [] \<longrightarrow> compare_versions (Some a) (Some a) = Inr 0) \<and>
   compare_versions (Some ''1.2.3'') (Some ''1.2.10'') = Inr (- 1) \<and>
   compare_versions (Some ''1.2'') (Some ''1.2.0'') = Inr 0 \<and>
   compare_versions None v2 = Inr (- 1) \<and>
   compare_versions (Some '''') v2 = Inr (- 1)"
proof -
  have cut: "first_difference ps qs =
      first_difference (take (min (length ps) (length qs)) ps)
        (take (min (length ps) (length qs)) qs)" for ps qs :: "part list"
  proof -
    have "zip (take (min (length ps) (length qs)) ps) (take (min (length ps) (length qs)) qs) =
        zip ps qs"
      by (simp flip: take_zip)
    then show ?thesis by (simp add: first_difference_def)
  qed
  have 1: "a \<noteq> [] \<longrightarrow>
      compare_versions (Some a) (Some b) =
        first_difference (map token (split_dots_hyphens a)) (map token (split_dots_hyphens b))"
    by (simp add: compare_versions_def compare_parts_first_difference normalize_eq_tokens)
  have 2: "a \<noteq> [] \<longrightarrow>
      compare_versions (Some a) (Some b) =
        first_difference
          (take (min (length (normalize a)) (length (normalize b))) (normalize a))
          (take (min (length (normalize a)) (length (normalize b))) (normalize b))"
    using cut [of "normalize a" "normalize b"]
    by (simp add: compare_versions_def compare_parts_first_difference)
  have 3: "a \<noteq> [] \<longrightarrow> compare_versions (Some a) (Some a) = Inr 0"
    by (simp add: compare_versions_def compare_parts_same)
  have 4: "compare_versions (Some ''1.2.3'') (Some ''1.2.10'') = Inr (- 1)"
    by (simp add: compare_versions_def normalize_def replace_char_def isdigit_def
        is_digit_char_def int_of_digits_def)
  have 5: "compare_versions (Some ''1.2'') (Some ''1.2.0'') = Inr 0"
    by (simp add: compare_versions_def normalize_def replace_char_def isdigit_def
        is_digit_char_def int_of_digits_def)
  have 6: "compare_versions None v2 = Inr (- 1)" "compare_versions (Some '''') v2 = Inr (- 1)"
    by (simp_all add: compare_versions_def)
  from 1 2 3 4 5 6 show ?thesis by blast
qed

theorem compare_versions_first_difference_witness:
  "compare_versions (Some ''2.0-rc1'') (Some ''2.0-rc1'') = Inr 0 \<and>
   compare_versions (Some ''2.0-rc1'') (Some ''2.0-rc2.post1'') =
     first_difference [PInt 2, PInt 0, PStr ''rc1''] [PInt 2, PInt 0, PStr ''rc2'', PStr ''post1''] \<and>
   first_difference [PInt 2, PInt 0, PStr ''rc1''] [PInt 2, PInt 0, PStr ''rc2'', PStr ''post1''] =
     Inr (- 1)"
proof -
  have ne: "''2.0-rc1'' \<noteq> []" by simp
  have t: "map token (split_dots_hyphens ''2.0-rc1'') = [PInt 2, PInt 0, PStr ''rc1'']"
    "map token (split_dots_hyphens ''2.0-rc2.post1'') =
       [PInt 2, PInt 0, PStr ''rc2'', PStr ''post1'']"
    by (simp_all add: token_def isdigit_def is_digit_char_def int_of_digits_def)
  have v: "first_difference [PInt 2, PInt 0, PStr ''rc1'']
      [PInt 2, PInt 0, PStr ''rc2'', PStr ''post1''] = Inr (- 1)"
    by (simp add: first_difference_def)
  from compare_versions_first_difference [of "''2.0-rc1''" "''2.0-rc1''" None] ne
  have a: "compare_versions (Some ''2.0-rc1'') (Some ''2.0-rc1'') = Inr 0" by blast
  from compare_versions_first_difference [of "''2.0-rc1''" "''2.0-rc2.post1''" None] ne
  have b: "compare_versions (Some ''2.0-rc1'') (Some ''2.0-rc2.post1'') =
      first_difference (map token (split_dots_hyphens ''2.0-rc1''))
        (map token (split_dots_hyphens ''2.0-rc2.post1''))" by blast
  from a b v show ?thesis unfolding t by simp
qed

section \<open>Properties of the license normalizer\<close>

lemma classifier_lookup_find:
  "classifier_lookup table cls =
     (case find (\<lambda>c. startswith c ''License'') cls of
        None \<Rightarrow> Inl NoLicenseFound
      | Some c \<Rightarrow> (case table (Some c) of None \<Rightarrow> Inl KeyError | Some v \<Rightarrow> Inr v))"
  by (induction cls) auto

lemma LICENSES_initial_MIT: "LICENSES_initial (Some ''MIT'') = Some ''MIT''"
  by code_simp

lemma LICENSES_initial_space_MIT: "LICENSES_initial (Some '' MIT'') = None"
  by code_simp

text \<open>
  C6, as the specification states it, has the declared string stripped of surrounding
  quotes and white space before the lookup. The code strips quotes only. The declared
  string \<^verbatim>\<open>' MIT'\<close> (a leading blank) stripped of white space is \<^verbatim>\<open>MIT\<close>, a key
  of the table; the code looks up \<^verbatim>\<open>' MIT'\<close> as it is, misses, and with no classifier
  returns the default license.
\<close>

theorem translate_license_whitespace_counterexample:
  "strip_quotes_whitespace '' MIT'' = ''MIT'' \<and>
   LICENSES_initial (Some ''MIT'') = Some ''MIT'' \<and>
   fst (translate_license (Some '' MIT'') [] (Some ''CLOSED'')
     \<lparr>PROCESSED_PACKAGES = [], LICENSES = LICENSES_initial, packages0 = [], stdin = [],
      trace = []\<rparr>) = Inr ''CLOSED''"
  by (simp add: LICENSES_initial_MIT LICENSES_initial_space_MIT strip_quotes_whitespace_def
      is_quote_or_space_def translate_license_def declared_lookup_def strip_char_def)

text \<open>
  C6, amended: the order of the normalizer, with the stripping the code does. A non-empty
  declared string is stripped of surrounding single quotes, then of surrounding double
  quotes (white space stays), and looked up; a hit is returned. Otherwise, or on a miss,
  the first classifier that starts with \<^verbatim>\<open>License\<close> is looked up as it is, and a hit is
  returned. On a miss of both, a configured (non-empty) default license is returned. In
  all three cases the table and the rest of the state are left as they were.
\<close>

theorem translate_license_order:
  "(l \<noteq> [] \<and> LICENSES st (Some (strip_char CHR 0x22 (strip_char CHR 0x27 l))) = Some v \<longrightarrow>
      translate_license (Some l) classifiers dflt st = (Inr v, st)) \<and>
   (declared_lookup (LICENSES st) license = None \<and>
    find (\<lambda>c. startswith c ''License'') classifiers = Some c \<and>
    LICENSES st (Some c) = Some v \<longrightarrow>
      translate_license license classifiers dflt st = (Inr v, st)) \<and>
   (declared_lookup (LICENSES st) license = None \<and>
    (case find (\<lambda>c. startswith c ''License'') classifiers of
       None \<Rightarrow> True
     | Some c \<Rightarrow> LICENSES st (Some c) = None) \<and>
    d \<noteq> [] \<longrightarrow>
      translate_license license classifiers (Some d) st = (Inr d, st))"
  by (auto simp: translate_license_def declared_lookup_def classifier_lookup_find
      split: option.splits)

theorem translate_license_order_witness:
  "translate_license (Some [CHR 0x27, CHR 0x22, CHR ''M'', CHR ''I'', CHR ''T'', CHR 0x22, CHR 0x27])
     [] None
     \<lparr>PROCESSED_PACKAGES = [], LICENSES = LICENSES_initial, packages0 = [], stdin = [],
      trace = []\<rparr> =
   (Inr ''MIT'',
     \<lparr>PROCESSED_PACKAGES = [], LICENSES = LICENSES_initial, packages0 = [], stdin = [],
      trace = []\<rparr>) \<and>
   translate_license None
     [''Topic :: Internet'', ''License :: OSI Approved :: BSD License'', ''License :: Other'']
     None
     \<lparr>PROCESSED_PACKAGES = [], LICENSES = LICENSES_initial, packages0 = [], stdin = [],
      trace = []\<rparr> =
   (Inr ''BSD'',
     \<lparr>PROCESSED_PACKAGES = [], LICENSES = LICENSES_initial, packages0 = [], stdin = [],
      trace = []\<rparr>) \<and>
   translate_license (Some '' MIT'') [] (Some ''CLOSED'')
     \<lparr>PROCESSED_PACKAGES = [], LICENSES = LICENSES_initial, packages0 = [], stdin = [],
      trace = []\<rparr> =
   (Inr ''CLOSED'',
     \<lparr>PROCESSED_PACKAGES = [], LICENSES = LICENSES_initial, packages0 = [], stdin = [],
      trace = []\<rparr>)"
proof -
  let ?st = "\<lparr>PROCESSED_PACKAGES = [], LICENSES = LICENSES_initial, packages0 = [],
    stdin = [], trace = []\<rparr>"
  have bsd: "LICENSES_initial (Some ''License :: OSI Approved :: BSD License'') = Some ''BSD''"
    by code_simp
  have a: "translate_license
      (Some [CHR 0x27, CHR 0x22, CHR ''M'', CHR ''I'', CHR ''T'', CHR 0x22, CHR 0x27])
      [] None ?st = (Inr ''MIT'', ?st)"
    using translate_license_order
      [where l = "[CHR 0x27, CHR 0x22, CHR ''M'', CHR ''I'', CHR ''T'', CHR 0x22, CHR 0x27]"
        and st = ?st and v = "''MIT''" and classifiers = "[]" and dflt = None]
    by (simp add: strip_char_def LICENSES_initial_MIT)
  have b: "translate_license None
      [''Topic :: Internet'', ''License :: OSI Approved :: BSD License'', ''License :: Other'']
      None ?st = (Inr ''BSD'', ?st)"
    using translate_license_order
      [where st = ?st and v = "''BSD''" and license = None and dflt = None
        and c = "''License :: OSI Approved :: BSD License''"
        and classifiers = "[''Topic :: Internet'', ''License :: OSI Approved :: BSD License'',
          ''License :: Other'']"]
    by (simp add: declared_lookup_def startswith_def bsd)
  have c: "translate_license (Some '' MIT'') [] (Some ''CLOSED'') ?st = (Inr ''CLOSED'', ?st)"
    using translate_license_order
      [where st = ?st and license = "Some '' MIT''" and classifiers = "[]" and d = "''CLOSED''"]
    by (simp add: declared_lookup_def strip_char_def LICENSES_initial_space_MIT)
  from a b c show ?thesis by simp
qed

lemma input_cases:
  "input prompt st =
     (case stdin st of
        [] \<Rightarrow> (Inl EOFError, st\<lparr>trace := trace st @ [Prompt prompt]\<rparr>)
      | line # rest \<Rightarrow> (Inr line, st\<lparr>trace := trace st @ [Prompt prompt], stdin := rest\<rparr>))"
  by (simp add: input_def emit_def split: list.splits)

lemma learn_mapping_Cons:
  "stdin st = mapping # rest \<Longrightarrow>
   learn_mapping license st =
     (Inr mapping,
      st\<lparr>trace := trace st @
              [FailedToTranslate license, Prompt ''Please enter a valid license name: ''],
          stdin := rest,
          LICENSES := (LICENSES st)(license \<mapsto> mapping)\<rparr>)"
  by (simp add: learn_mapping_def input_cases emit_def)

lemma learn_mapping_keeps:
  "LICENSES st k = Some m \<Longrightarrow> license \<noteq> k \<Longrightarrow>
   LICENSES (snd (learn_mapping license st)) k = Some m"
  by (simp add: learn_mapping_def input_cases emit_def split: list.splits)

lemma learn_mapping_same:
  "LICENSES st k = Some m \<Longrightarrow>
   LICENSES (snd (learn_mapping k st)) k = Some m \<or>
   (case stdin st of
      [] \<Rightarrow> False
    | answer # _ \<Rightarrow>
        fst (learn_mapping k st) = Inr answer \<and>
        LICENSES (snd (learn_mapping k st)) k = Some answer)"
  by (simp add: learn_mapping_def input_cases emit_def split: list.splits)

lemma translate_license_state:
  "translate_license license classifiers dflt st = (res, st') \<Longrightarrow>
   st' = st \<or> (res, st') = learn_mapping license st"
  by (auto simp: translate_license_def split: option.splits sum.splits if_splits)

text \<open>
  The learning step, as far as it holds. When the declared string misses (or is absent
  or empty), the first classifier that starts with \<^verbatim>\<open>License\<close> misses or there is
  none, and no default license is configured, the operator is prompted, and the answer is
  stored under the declared string as it was passed in, and returned. A later call of the
  normalizer leaves the entry as it is, unless that call was itself prompted for the same
  declared string, and then the entry is the operator's answer of that call. A later call
  for the same declared string, when it is not empty and has no surrounding quotes,
  returns the entry without a prompt.
\<close>

theorem translate_license_learns:
  "(declared_lookup (LICENSES st) license = None \<and>
    (case find (\<lambda>c. startswith c ''License'') classifiers of
       None \<Rightarrow> True
     | Some c \<Rightarrow> LICENSES st (Some c) = None) \<and>
    pinned dflt = None \<and> stdin st = mapping # rest \<longrightarrow>
      translate_license license classifiers dflt st =
        (Inr mapping,
         st\<lparr>trace := trace st @
                 [FailedToTranslate license, Prompt ''Please enter a valid license name: ''],
             stdin := rest,
             LICENSES := (LICENSES st)(license \<mapsto> mapping)\<rparr>) \<and>
      LICENSES (snd (translate_license license classifiers dflt st)) license = Some mapping) \<and>
   (LICENSES s license = Some mapping \<longrightarrow>
      LICENSES (snd (translate_license l' classifiers' dflt' s)) license = Some mapping \<or>
      (l' = license \<and>
       (case stdin s of
          [] \<Rightarrow> False
        | answer # _ \<Rightarrow>
            fst (translate_license l' classifiers' dflt' s) = Inr answer \<and>
            LICENSES (snd (translate_license l' classifiers' dflt' s)) license = Some answer))) \<and>
   (k \<noteq> [] \<and> strip_char CHR 0x22 (strip_char CHR 0x27 k) = k \<and>
    LICENSES s (Some k) = Some mapping \<longrightarrow>
      translate_license (Some k) classifiers' dflt' s = (Inr mapping, s))"
proof -
  have 1: "translate_license license classifiers dflt st =
        (Inr mapping,
         st\<lparr>trace := trace st @
                 [FailedToTranslate license, Prompt ''Please enter a valid license name: ''],
             stdin := rest,
             LICENSES := (LICENSES st)(license \<mapsto> mapping)\<rparr>) \<and>
      LICENSES (snd (translate_license license classifiers dflt st)) license = Some mapping"
    if "declared_lookup (LICENSES st) license = None"
      and "case find (\<lambda>c. startswith c ''License'') classifiers of
             None \<Rightarrow> True
           | Some c \<Rightarrow> LICENSES st (Some c) = None"
      and "pinned dflt = None" and "stdin st = mapping # rest"
  proof -
    have "translate_license license classifiers dflt st = learn_mapping license st"
      using that(1-3)
      by (auto simp: translate_license_def classifier_lookup_find pinned_def
          split: option.splits if_splits)
    with learn_mapping_Cons [OF that(4)] show ?thesis by simp
  qed
  have 2: "LICENSES (snd (translate_license l' classifiers' dflt' s)) license = Some mapping \<or>
      (l' = license \<and>
       (case stdin s of
          [] \<Rightarrow> False
        | answer # _ \<Rightarrow>
            fst (translate_license l' classifiers' dflt' s) = Inr answer \<and>
            LICENSES (snd (translate_license l' classifiers' dflt' s)) license = Some answer))"
    if k: "LICENSES s license = Some mapping"
  proof -
    obtain res s' where t: "translate_license l' classifiers' dflt' s = (res, s')"
      by (cases "translate_license l' classifiers' dflt' s")
    from translate_license_state [OF t] show ?thesis
    proof
      assume "s' = s"
      with t k show ?thesis by simp
    next
      assume l: "(res, s') = learn_mapping l' s"
      show ?thesis
      proof (cases "l' = license")
        case True
        with learn_mapping_same [OF k] l t show ?thesis
          by (auto split: list.splits)
      next
        case False
        with learn_mapping_keeps [OF k, of l'] l t show ?thesis
          by (metis snd_conv)
      qed
    qed
  qed
  have 3: "translate_license (Some k) classifiers' dflt' s = (Inr mapping, s)"
    if "k \<noteq> []" "strip_char CHR 0x22 (strip_char CHR 0x27 k) = k"
      "LICENSES s (Some k) = Some mapping"
    using that by (simp add: translate_license_def declared_lookup_def)
  from 1 2 3 show ?thesis by blast
qed

theorem translate_license_learns_witness:
  "translate_license (Some '' MIT'') [] None
     \<lparr>PROCESSED_PACKAGES = [], LICENSES = LICENSES_initial, packages0 = [],
      stdin = [''MIT''], trace = []\<rparr> =
   (Inr ''MIT'',
     \<lparr>PROCESSED_PACKAGES = [], LICENSES = LICENSES_initial(Some '' MIT'' \<mapsto> ''MIT''),
      packages0 = [], stdin = [],
      trace = [FailedToTranslate (Some '' MIT''),
               Prompt ''Please enter a valid license name: '']\<rparr>) \<and>
   translate_license (Some '' MIT'') [] None
     \<lparr>PROCESSED_PACKAGES = [], LICENSES = LICENSES_initial(Some '' MIT'' \<mapsto> ''MIT''),
      packages0 = [], stdin = [],
      trace = [FailedToTranslate (Some '' MIT''),
               Prompt ''Please enter a valid license name: '']\<rparr> =
   (Inr ''MIT'',
     \<lparr>PROCESSED_PACKAGES = [], LICENSES = LICENSES_initial(Some '' MIT'' \<mapsto> ''MIT''),
      packages0 = [], stdin = [],
      trace = [FailedToTranslate (Some '' MIT''),
               Prompt ''Please enter a valid license name: '']\<rparr>)"
proof -
  let ?s0 = "\<lparr>PROCESSED_PACKAGES = [], LICENSES = LICENSES_initial, packages0 = [],
    stdin = [''MIT''], trace = []\<rparr>"
  let ?s1 = "\<lparr>PROCESSED_PACKAGES = [],
    LICENSES = LICENSES_initial(Some '' MIT'' \<mapsto> ''MIT''), packages0 = [], stdin = [],
    trace = [FailedToTranslate (Some '' MIT''),
             Prompt ''Please enter a valid license name: '']\<rparr>"
  have a: "translate_license (Some '' MIT'') [] None ?s0 = (Inr ''MIT'', ?s1)"
    using translate_license_learns
      [where st = ?s0 and license = "Some '' MIT''" and classifiers = "[]" and dflt = None
        and mapping = "''MIT''" and rest = "[]"]
    by (simp add: declared_lookup_def strip_char_def LICENSES_initial_space_MIT pinned_def)
  have b: "translate_license (Some '' MIT'') [] None ?s1 = (Inr ''MIT'', ?s1)"
    using translate_license_learns
      [where s = ?s1 and k = "'' MIT''" and mapping = "''MIT''" and classifiers' = "[]"
        and dflt' = None]
    by (simp add: strip_char_def)
  from a b show ?thesis by simp
qed

lemma LICENSES_initial_Foo: "LICENSES_initial (Some ''Foo'') = None"
  by code_simp

text \<open>
  C7 (the learned mapping is found again under the declared string for the rest of the
  run). The mapping is stored under the declared string as it was passed in (line 142),
  but the lookup is made with the string stripped of its quotes (line 127). For the
  declared string \<^verbatim>\<open>'Foo'\<close>, written with its single quotes, the operator's answer
  \<open>X\<close> is stored under the quoted string; the next call with the same declared string
  looks up \<^verbatim>\<open>Foo\<close>, misses, and prompts again: with a second answer \<open>Y\<close> it
  returns \<open>Y\<close> and replaces the entry, and with the input at its end it raises
  \<^verbatim>\<open>EOFError\<close>.
\<close>

theorem learned_mapping_is_asked_for_again:
  "fst (translate_license (Some [CHR 0x27, CHR ''F'', CHR ''o'', CHR ''o'', CHR 0x27]) [] None
     \<lparr>PROCESSED_PACKAGES = [], LICENSES = LICENSES_initial, packages0 = [],
      stdin = [''X'', ''Y''], trace = []\<rparr>) = Inr ''X'' \<and>
   LICENSES (snd (translate_license
       (Some [CHR 0x27, CHR ''F'', CHR ''o'', CHR ''o'', CHR 0x27]) [] None
       \<lparr>PROCESSED_PACKAGES = [], LICENSES = LICENSES_initial, packages0 = [],
        stdin = [''X'', ''Y''], trace = []\<rparr>))
     (Some [CHR 0x27, CHR ''F'', CHR ''o'', CHR ''o'', CHR 0x27]) = Some ''X'' \<and>
   translate_license (Some [CHR 0x27, CHR ''F'', CHR ''o'', CHR ''o'', CHR 0x27]) [] None
     (snd (translate_license
       (Some [CHR 0x27, CHR ''F'', CHR ''o'', CHR ''o'', CHR 0x27]) [] None
       \<lparr>PROCESSED_PACKAGES = [], LICENSES = LICENSES_initial, packages0 = [],
        stdin = [''X'', ''Y''], trace = []\<rparr>)) =
     (Inr ''Y'',
      \<lparr>PROCESSED_PACKAGES = [],
       LICENSES = LICENSES_initial
         (Some [CHR 0x27, CHR ''F'', CHR ''o'', CHR ''o'', CHR 0x27] \<mapsto> ''Y''),
       packages0 = [], stdin = [],
       trace = [FailedToTranslate (Some [CHR 0x27, CHR ''F'', CHR ''o'', CHR ''o'', CHR 0x27]),
                Prompt ''Please enter a valid license name: '',
                FailedToTranslate (Some [CHR 0x27, CHR ''F'', CHR ''o'', CHR ''o'', CHR 0x27]),
                Prompt ''Please enter a valid license name: '']\<rparr>) \<and>
   fst (translate_license (Some [CHR 0x27, CHR ''F'', CHR ''o'', CHR ''o'', CHR 0x27]) [] None
     (snd (translate_license
       (Some [CHR 0x27, CHR ''F'', CHR ''o'', CHR ''o'', CHR 0x27]) [] None
       \<lparr>PROCESSED_PACKAGES = [], LICENSES = LICENSES_initial, packages0 = [],
        stdin = [''X''], trace = []\<rparr>))) = Inl EOFError"
  by (simp add: translate_license_def declared_lookup_def strip_char_def learn_mapping_def
      input_def emit_def LICENSES_initial_Foo)

section \<open>Properties of the wildcard selection\<close>

lemma found_loop_drop:
  "found_loop j v tv =
     (if take (length (fixed_prefix v)) (drop j tv) = fixed_prefix v then Inr True
      else if length (drop j tv) < length (fixed_prefix v) \<and>
              drop j tv = take (length (drop j tv)) (fixed_prefix v)
      then Inl IndexError
      else Inr False)"
proof (induction v arbitrary: j)
  case Nil
  show ?case by (simp add: fixed_prefix_def)
next
  case (Cons seg rest)
  show ?case
  proof (cases "seg = ''*''")
    case True
    then show ?thesis by (simp add: fixed_prefix_def)
  next
    case star: False
    show ?thesis
    proof (cases "length tv \<le> j")
      case True
      with star show ?thesis by (simp add: fixed_prefix_def)
    next
      case False
      then have d: "drop j tv = tv ! j # drop (Suc j) tv"
        by (simp add: Cons_nth_drop_Suc)
      have f: "fixed_prefix (seg # rest) = seg # fixed_prefix rest"
        using star by (simp add: fixed_prefix_def)
      show ?thesis
      proof (cases "seg = tv ! j")
        case True
        with star False Cons.IH [of "Suc j"] show ?thesis
          unfolding f d by auto
      next
        case ne: False
        with star False show ?thesis unfolding f d by auto
      qed
    qed
  qed
qed

lemma found_loop_0:
  "found_loop 0 v (split_on CHR ''.'' i) =
     (if prefix_matches v i then Inr True
      else if runs_out v i then Inl IndexError else Inr False)"
  by (simp add: found_loop_drop prefix_matches_def runs_out_def)

lemma releases_loop_filter:
  "releases_loop v rs pv =
     (if list_ex (runs_out v) rs then Inl IndexError
      else Inr (pv @ filter (prefix_matches v) rs))"
proof (induction rs arbitrary: pv)
  case Nil
  show ?case by simp
next
  case (Cons i rs)
  have "\<not> (prefix_matches v i \<and> runs_out v i)"
    by (auto simp: prefix_matches_def runs_out_def)
  then show ?case
    by (auto simp: found_loop_0 Cons.IH)
qed

lemma sorted_le_last: "sorted xs \<Longrightarrow> x \<in> set xs \<Longrightarrow> x \<le> last xs"
  for xs :: "'a::linorder list"
  by (induction xs) auto

text \<open>
  C8, as the specification states it, fails twice. The code takes the last match in the
  order in which the registry lists the releases, not the greatest one: of the releases
  1.9 and 1.10, listed in this order, the pattern \<^verbatim>\<open>1.*\<close> selects 1.10, and 1.9 is
  the greater string. And the code stops comparing at the first wildcard: the pattern
  \<^verbatim>\<open>1.*.3\<close> keeps and selects 1.2.4, whose third segment is not 3.
\<close>

theorem fuzzy_version_counterexample:
  "fuzzy_version ''1.*'' [''1.9'', ''1.10''] = Inr ''1.10'' \<and>
   greatest_match ''1.*'' [''1.9'', ''1.10''] = Some ''1.9'' \<and>
   fuzzy_version ''1.*.3'' [''1.2.4''] = Inr ''1.2.4'' \<and>
   greatest_match ''1.*.3'' [''1.2.4''] = None"
  by (simp add: fuzzy_version_def last_item_def greatest_match_def matches_positionally_def
      max_def)

lemma fuzzy_version_cases:
  "fuzzy_version version releases =
     (if list_ex (runs_out (split_on CHR ''.'' version)) releases then Inl IndexError
      else last_item (filter (prefix_matches (split_on CHR ''.'' version)) releases))"
  by (simp add: fuzzy_version_def releases_loop_filter)

lemma fuzzy_version_last:
  "\<not> list_ex (runs_out (split_on CHR ''.'' version)) releases \<Longrightarrow>
   filter (prefix_matches (split_on CHR ''.'' version)) releases \<noteq> [] \<Longrightarrow>
   fuzzy_version version releases =
     Inr (last (filter (prefix_matches (split_on CHR ''.'' version)) releases))"
  by (simp add: fuzzy_version_cases last_item_def)

lemma fuzzy_version_greatest:
  assumes s: "sorted releases" and f: "fuzzy_version version releases = Inr m"
  shows "list_all (\<lambda>i. prefix_matches (split_on CHR ''.'' version) i \<longrightarrow> i \<le> m) releases"
proof -
  let ?P = "prefix_matches (split_on CHR ''.'' version)"
  from f have m: "filter ?P releases \<noteq> []" "m = last (filter ?P releases)"
    by (auto simp: fuzzy_version_cases last_item_def split: if_splits)
  from s have "sorted (filter ?P releases)" by (rule sorted_wrt_filter)
  then have "i \<le> m" if "i \<in> set releases" "?P i" for i
    using that m sorted_le_last [of "filter ?P releases" i] by simp
  then show ?thesis by (simp add: list_all_iff)
qed

section \<open>Properties of the resolution engine\<close>

lemma all_packages_loop_char:
  "all_packages_loop pn v ps st =
     ((case dropWhile (\<lambda>p. compare_versions v (pkg_version p) = Inr 1)
              (filter (\<lambda>p. pn = pkg_name p) ps) of
         [] \<Rightarrow> Inr False
       | p # _ \<Rightarrow> (case compare_versions v (pkg_version p) of Inl e \<Rightarrow> Inl e | Inr _ \<Rightarrow> Inr True)),
      st\<lparr>trace := trace st @
             map (\<lambda>p. Warning pn v (pkg_version p))
               (takeWhile (\<lambda>p. compare_versions v (pkg_version p) = Inr 1)
                  (filter (\<lambda>p. pn = pkg_name p) ps))\<rparr>)"
proof (induction ps arbitrary: st)
  case Nil
  show ?case by simp
next
  case (Cons p ps)
  show ?case
  proof (cases "pn = pkg_name p")
    case False
    then show ?thesis by (simp add: Cons.IH)
  next
    case True
    then have t: "pkg_name p = pn" by simp
    show ?thesis
    proof (cases "compare_versions v (pkg_version p)")
      case (Inl e)
      with t show ?thesis by simp
    next
      case (Inr result)
      with t show ?thesis
        by (simp add: Cons.IH emit_def)
    qed
  qed
qed

lemma translate_license_lists:
  "translate_license l cs d st = (res, st') \<Longrightarrow>
   PROCESSED_PACKAGES st' = PROCESSED_PACKAGES st \<and> packages0 st' = packages0 st"
  by (auto simp: translate_license_def learn_mapping_def input_def emit_def
      split: option.splits sum.splits if_splits list.splits)

lemma describe_lists:
  "describe r pn uv v st = (res, st') \<Longrightarrow>
   PROCESSED_PACKAGES st' = PROCESSED_PACKAGES st \<and> packages0 st' = packages0 st"
  by (auto simp: describe_def emit_def split: sum.splits prod.splits
      dest!: translate_license_lists)

lemma gather_lists:
  "gather r pn v st = (res, st') \<Longrightarrow>
   PROCESSED_PACKAGES st' = PROCESSED_PACKAGES st \<and> packages0 st' = packages0 st"
  by (auto simp: gather_def emit_def split: option.splits sum.splits if_splits
      dest!: describe_lists)

lemma describe_package:
  "describe r pn uv v st = (Inr p, st') \<Longrightarrow> pkg_name p = pn"
  by (auto simp: describe_def split: sum.splits prod.splits)

lemma gather_package:
  "gather r pn v st = (Inr p, st') \<Longrightarrow> pkg_name p = pn"
  by (auto simp: gather_def split: option.splits sum.splits if_splits
      dest: describe_package)

lemma grows_iff:
  "grows st st' \<longleftrightarrow>
     (\<exists>xs. packages0 st' = packages0 st @ xs \<and>
           PROCESSED_PACKAGES st' = PROCESSED_PACKAGES st @ xs)"
proof
  assume g: "grows st st'"
  let ?xs = "drop (length (packages0 st)) (packages0 st')"
  from g have "packages0 st' = packages0 st @ ?xs"
    unfolding grows_def by (metis append_take_drop_id)
  moreover from g have "PROCESSED_PACKAGES st' = PROCESSED_PACKAGES st @ ?xs"
    unfolding grows_def by (metis append_take_drop_id)
  ultimately show "\<exists>xs. packages0 st' = packages0 st @ xs \<and>
      PROCESSED_PACKAGES st' = PROCESSED_PACKAGES st @ xs" by blast
next
  assume "\<exists>xs. packages0 st' = packages0 st @ xs \<and>
      PROCESSED_PACKAGES st' = PROCESSED_PACKAGES st @ xs"
  then show "grows st st'" by (auto simp: grows_def)
qed

lemma grows_refl: "grows st st"
  by (simp add: grows_def)

lemma grows_trans: "grows a b \<Longrightarrow> grows b c \<Longrightarrow> grows a c"
  by (auto simp: grows_iff)

lemma grows_same_lists:
  "PROCESSED_PACKAGES st' = PROCESSED_PACKAGES st \<Longrightarrow> packages0 st' = packages0 st \<Longrightarrow>
   grows st st'"
  by (simp add: grows_def)

lemma check_lists:
  "check_package_already_processed pn v ps qs st = (res, st') \<Longrightarrow>
   PROCESSED_PACKAGES st' = PROCESSED_PACKAGES st \<and> packages0 st' = packages0 st \<and>
   LICENSES st' = LICENSES st \<and> stdin st' = stdin st"
  by (auto simp: check_package_already_processed_def all_packages_loop_char)

lemma walk_grows:
  assumes call: "\<And>d s s'. d \<in> set ds \<Longrightarrow>
      call d s = Returned s' \<or> (\<exists>e. call d s = Raised e s') \<Longrightarrow> grows s s'"
  shows "walk call ds st = Returned st' \<or> (\<exists>e. walk call ds st = Raised e st') \<Longrightarrow>
    grows st st'"
  using call
proof (induction ds arbitrary: st)
  case Nil
  then show ?case by (auto simp: grows_refl)
next
  case (Cons d ds)
  show ?case
  proof (cases "call d st")
    case OutOfFuel
    with Cons.prems show ?thesis by simp
  next
    case (Raised e s)
    with Cons.prems(1) have "st' = s" by simp
    with Raised Cons.prems(2) [of d st s] show ?thesis by simp
  next
    case (Returned s)
    with Cons.prems(2) [of d st s] have 1: "grows st s" by simp
    from Returned Cons.prems(1) have "walk call ds s = Returned st' \<or>
        (\<exists>e. walk call ds s = Raised e st')" by simp
    then have "grows s st'"
      by (rule Cons.IH) (use Cons.prems(2) in auto)
    with 1 show ?thesis by (rule grows_trans)
  qed
qed

lemma get_package_info_grows:
  "get_package_info fuel r package version True indent extra st = Returned st' \<or>
   (\<exists>e. get_package_info fuel r package version True indent extra st = Raised e st') \<Longrightarrow>
   grows st st'"
proof (induction fuel arbitrary: package version indent extra st st')
  case 0
  then show ?case by simp
next
  case (Suc fuel)
  let ?pn = "takeWhile (\<lambda>c. c \<noteq> CHR ''['') package"
  obtain res st1 where c: "check_package_already_processed ?pn version
      (PROCESSED_PACKAGES st) (packages0 st) st = (res, st1)"
    by (cases "check_package_already_processed ?pn version
      (PROCESSED_PACKAGES st) (packages0 st) st")
  from check_lists [OF c] have g1: "grows st st1" by (simp add: grows_same_lists)
  show ?case
  proof (cases res)
    case (Inl e)
    with Suc.prems c have "st' = st1" by simp
    with g1 show ?thesis by simp
  next
    case (Inr skip)
    show ?thesis
    proof (cases skip)
      case True
      with Inr Suc.prems c have "st' = st1" by simp
      with g1 show ?thesis by simp
    next
      case False
      let ?st1' = "emit (Progress (indent_str indent) package (pinned extra) (pinned version)) st1"
      obtain gres st2 where g: "gather r ?pn version ?st1' = (gres, st2)"
        by (cases "gather r ?pn version ?st1'")
      from gather_lists [OF g] have g2: "grows st1 st2"
        by (simp add: grows_same_lists emit_def)
      show ?thesis
      proof (cases gres)
        case (Inl e)
        with Inr False Suc.prems c g have "st' = failed indent (Inl package) e st2" by simp
        then have "grows st2 st'" by (simp add: grows_same_lists failed_def emit_def)
        with g1 g2 show ?thesis by (blast intro: grows_trans)
      next
        case p: (Inr p)
        let ?st3 = "st2\<lparr>packages0 := packages0 st2 @ [p],
          PROCESSED_PACKAGES := PROCESSED_PACKAGES st2 @ [p]\<rparr>"
        let ?call = "\<lambda>dependency.
          get_package_info fuel r (dep_name dependency) (dep_version dependency)
            True (indent + 2) (dep_extra dependency)"
        have g3: "grows st2 ?st3" by (auto simp: grows_iff)
        have w: "grows ?st3 s" if "walk ?call (pkg_dependencies p) ?st3 = Returned s \<or>
            (\<exists>e. walk ?call (pkg_dependencies p) ?st3 = Raised e s)" for s
          using that by (rule walk_grows [rotated]) (rule Suc.IH)
        show ?thesis
        proof (cases "walk ?call (pkg_dependencies p) ?st3")
          case OutOfFuel
          with Inr False p Suc.prems c g show ?thesis by simp
        next
          case (Raised e s)
          with Inr False p Suc.prems c g have "st' = failed indent (Inr p) e s" by simp
          then have "grows s st'" by (simp add: grows_same_lists failed_def emit_def)
          with w [of s] Raised g1 g2 g3 show ?thesis by (blast intro: grows_trans)
        next
          case (Returned s)
          with Inr False p Suc.prems c g have "st' = s" by simp
          with w [of s] Returned g1 g2 g3 show ?thesis by (blast intro: grows_trans)
        qed
      qed
    qed
  qed
qed

lemma describe_dependencies:
  "describe r pn uv v st = (Inr p, st') \<Longrightarrow>
   pkg_dependencies p =
     (case metadata_of r pn uv of
        Inl e \<Rightarrow> []
      | Inr i \<Rightarrow>
          (case source_of r pn (case pinned v of None \<Rightarrow> info_version i | Some x \<Rightarrow> x) i of
             Inl e \<Rightarrow> []
           | Inr uri \<Rightarrow>
               (case artifact_of r pn (case pinned v of None \<Rightarrow> info_version i | Some x \<Rightarrow> x)
                       uri i of
                  Inl e \<Rightarrow> []
                | Inr a \<Rightarrow> get_package_dependencies (requires_dist a) (follow_extras r))))"
  by (auto simp: describe_def split: sum.splits prod.splits)

lemma gather_dependencies:
  assumes g: "gather r (takeWhile (\<lambda>c. c \<noteq> CHR ''['') package) version st = (Inr p, st')"
  shows "pkg_dependencies p = dependencies_of r package version"
proof (cases "pinned version")
  case None
  with g have "describe r (takeWhile (\<lambda>c. c \<noteq> CHR ''['') package) None None st = (Inr p, st')"
    by (simp add: gather_def)
  from describe_dependencies [OF this] show ?thesis
    by (simp add: dependencies_of_def None)
next
  case (Some v)
  show ?thesis
  proof (cases "CHR ''*'' \<in> set v")
    case False
    with g Some
    have "describe r (takeWhile (\<lambda>c. c \<noteq> CHR ''['') package) (Some v) (Some v) st = (Inr p, st')"
      by (simp add: gather_def)
    from describe_dependencies [OF this] show ?thesis
      by (simp add: dependencies_of_def Some False)
  next
    case True
    show ?thesis
    proof (cases "releases_of r (takeWhile (\<lambda>c. c \<noteq> CHR ''['') package)")
      case (Inl e)
      with g Some True show ?thesis by (simp add: gather_def)
    next
      case (Inr releases)
      show ?thesis
      proof (cases "fuzzy_version v releases")
        case (Inl e)
        with g Some True Inr show ?thesis by (simp add: gather_def)
      next
        case v': (Inr v')
        with g Some True Inr
        have "describe r (takeWhile (\<lambda>c. c \<noteq> CHR ''['') package) (Some v') (Some v')
            (emit (FuzzyVersion (split_on CHR ''.'' v))
              (emit (GetReleases (takeWhile (\<lambda>c. c \<noteq> CHR ''['') package)) st)) = (Inr p, st')"
          by (simp add: gather_def)
        from describe_dependencies [OF this] show ?thesis
          by (simp add: dependencies_of_def Some True Inr v')
      qed
    qed
  qed
qed

lemma walk_not_OutOfFuel:
  "(\<And>d s. d \<in> set ds \<Longrightarrow> call d s \<noteq> OutOfFuel) \<Longrightarrow> walk call ds st \<noteq> OutOfFuel"
proof (induction ds arbitrary: st)
  case Nil
  show ?case by simp
next
  case (Cons d ds)
  from Cons.prems [of d st] have "call d st \<noteq> OutOfFuel" by simp
  moreover have "walk call ds s \<noteq> OutOfFuel" for s
    by (rule Cons.IH) (simp add: Cons.prems)
  ultimately show ?case by (cases "call d st") auto
qed

lemma get_package_info_Suc:
  assumes "(if \<not> packages then (Inr False, st\<lparr>packages0 := []\<rparr>)
            else check_package_already_processed (takeWhile (\<lambda>c. c \<noteq> CHR ''['') package)
                   version (PROCESSED_PACKAGES st) (packages0 st) st) = (res, st1)"
    and "gather r (takeWhile (\<lambda>c. c \<noteq> CHR ''['') package) version
           (emit (Progress (indent_str indent) package (pinned extra) (pinned version)) st1) =
         (gres, st2)"
  shows "get_package_info (Suc fuel) r package version packages indent extra st =
     (case res of
        Inl e \<Rightarrow> Raised e st1
      | Inr True \<Rightarrow> Returned st1
      | Inr False \<Rightarrow>
          (case gres of
             Inl e \<Rightarrow> Returned (failed indent (Inl package) e st2)
           | Inr p \<Rightarrow>
               (case walk (\<lambda>dependency.
                             get_package_info fuel r (dep_name dependency) (dep_version dependency)
                               True (indent + 2) (dep_extra dependency))
                       (pkg_dependencies p)
                       (st2\<lparr>packages0 := packages0 st2 @ [p],
                            PROCESSED_PACKAGES := PROCESSED_PACKAGES st2 @ [p]\<rparr>) of
                  OutOfFuel \<Rightarrow> OutOfFuel
                | Raised e st3 \<Rightarrow> Returned (failed indent (Inr p) e st3)
                | Returned st3 \<Rightarrow> Returned st3)))"
proof (cases res)
  case (Inl e)
  with assms(1) show ?thesis by (simp del: split_paired_All)
next
  case (Inr skip)
  show ?thesis
  proof (cases skip)
    case True
    with Inr assms(1) show ?thesis by simp
  next
    case False
    with Inr assms show ?thesis by (cases gres) simp_all
  qed
qed

lemma get_package_info_enough_fuel:
  "depth_within fuel r package version \<Longrightarrow>
   get_package_info fuel r package version packages indent extra st \<noteq> OutOfFuel"
proof (induction fuel arbitrary: package version packages indent extra st)
  case 0
  then show ?case by simp
next
  case (Suc fuel)
  let ?pn = "takeWhile (\<lambda>c. c \<noteq> CHR ''['') package"
  obtain res st1 where c: "(if \<not> packages then (Inr False, st\<lparr>packages0 := []\<rparr>)
            else check_package_already_processed ?pn
                   version (PROCESSED_PACKAGES st) (packages0 st) st) = (res, st1)"
    by (cases "(if \<not> packages then (Inr False, st\<lparr>packages0 := []\<rparr>)
            else check_package_already_processed ?pn
                   version (PROCESSED_PACKAGES st) (packages0 st) st)")
  obtain gres st2 where g: "gather r ?pn version
      (emit (Progress (indent_str indent) package (pinned extra) (pinned version)) st1) =
      (gres, st2)"
    by (cases "gather r ?pn version
      (emit (Progress (indent_str indent) package (pinned extra) (pinned version)) st1)")
  have w: "walk (\<lambda>dependency.
          get_package_info fuel r (dep_name dependency) (dep_version dependency)
            True (indent + 2) (dep_extra dependency)) (pkg_dependencies p) s \<noteq> OutOfFuel"
    if "gres = Inr p" for p s
  proof (rule walk_not_OutOfFuel)
    fix d s'
    assume "d \<in> set (pkg_dependencies p)"
    with gather_dependencies [OF g [unfolded that]] Suc.prems
    have "depth_within fuel r (dep_name d) (dep_version d)"
      by (simp add: list_all_iff)
    then show "get_package_info fuel r (dep_name d) (dep_version d) True (indent + 2)
        (dep_extra d) s' \<noteq> OutOfFuel"
      by (rule Suc.IH)
  qed
  show ?case
    unfolding get_package_info_Suc [OF c g]
    using w by (auto split: sum.splits bool.splits outcome.splits)
qed


lemma walk_outcome_grows:
  assumes "depth_within (Suc fuel) r package version"
    and "gather r (takeWhile (\<lambda>c. c \<noteq> CHR ''['') package) version s0 = (Inr p, s1)"
  shows "\<exists>s.
    (walk (\<lambda>dependency.
        get_package_info fuel r (dep_name dependency) (dep_version dependency)
          True (indent + 2) (dep_extra dependency)) (pkg_dependencies p) st = Returned s \<or>
     (\<exists>e. walk (\<lambda>dependency.
        get_package_info fuel r (dep_name dependency) (dep_version dependency)
          True (indent + 2) (dep_extra dependency)) (pkg_dependencies p) st = Raised e s)) \<and>
    grows st s"
proof -
  let ?call = "\<lambda>dependency.
        get_package_info fuel r (dep_name dependency) (dep_version dependency)
          True (indent + 2) (dep_extra dependency)"
  have "walk ?call (pkg_dependencies p) st \<noteq> OutOfFuel"
  proof (rule walk_not_OutOfFuel)
    fix d s'
    assume "d \<in> set (pkg_dependencies p)"
    with gather_dependencies [OF assms(2)] assms(1)
    have "depth_within fuel r (dep_name d) (dep_version d)"
      by (simp add: list_all_iff)
    then show "?call d s' \<noteq> OutOfFuel"
      by (rule get_package_info_enough_fuel)
  qed
  then obtain s where s: "walk ?call (pkg_dependencies p) st = Returned s \<or>
     (\<exists>e. walk ?call (pkg_dependencies p) st = Raised e s)"
    by (cases "walk ?call (pkg_dependencies p) st") auto
  then have "grows st s"
    by (rule walk_grows [rotated]) (rule get_package_info_grows)
  with s show ?thesis by blast
qed

lemma resolved_is_appended:
  assumes c: "(if \<not> packages then (Inr False, st\<lparr>packages0 := []\<rparr>)
            else check_package_already_processed (takeWhile (\<lambda>c. c \<noteq> CHR ''['') package)
                   version (PROCESSED_PACKAGES st) (packages0 st) st) = (Inr False, st1)"
    and g: "gather r (takeWhile (\<lambda>c. c \<noteq> CHR ''['') package) version
           (emit (Progress (indent_str indent) package (pinned extra) (pinned version)) st1) =
         (Inr p, st2)"
    and d: "depth_within fuel r package version"
  shows "\<exists>st'. get_package_info fuel r package version packages indent extra st = Returned st' \<and>
     take (Suc (length (packages0 st1))) (packages0 st') = packages0 st1 @ [p] \<and>
     take (Suc (length (PROCESSED_PACKAGES st1))) (PROCESSED_PACKAGES st') =
       PROCESSED_PACKAGES st1 @ [p]"
proof -
  from d obtain n where n: "fuel = Suc n" by (cases fuel) auto
  let ?st3 = "st2\<lparr>packages0 := packages0 st2 @ [p],
    PROCESSED_PACKAGES := PROCESSED_PACKAGES st2 @ [p]\<rparr>"
  let ?call = "\<lambda>dependency.
        get_package_info n r (dep_name dependency) (dep_version dependency)
          True (indent + 2) (dep_extra dependency)"
  from gather_lists [OF g] have l: "packages0 st2 = packages0 st1"
    "PROCESSED_PACKAGES st2 = PROCESSED_PACKAGES st1" by (simp_all add: emit_def)
  from d n have "depth_within (Suc n) r package version" by simp
  from walk_outcome_grows [OF this g, of indent ?st3]
  obtain s where s: "walk ?call (pkg_dependencies p) ?st3 = Returned s \<or>
     (\<exists>e. walk ?call (pkg_dependencies p) ?st3 = Raised e s)" and gr: "grows ?st3 s"
    by blast
  from gr l obtain xs where xs: "packages0 s = packages0 st1 @ p # xs"
    "PROCESSED_PACKAGES s = PROCESSED_PACKAGES st1 @ p # xs"
    by (auto simp: grows_iff)
  from s show ?thesis
  proof
    assume "walk ?call (pkg_dependencies p) ?st3 = Returned s"
    then have "get_package_info fuel r package version packages indent extra st = Returned s"
      unfolding n get_package_info_Suc [OF c g] by simp
    with xs show ?thesis by simp
  next
    assume "\<exists>e. walk ?call (pkg_dependencies p) ?st3 = Raised e s"
    then obtain e where "walk ?call (pkg_dependencies p) ?st3 = Raised e s" ..
    then have "get_package_info fuel r package version packages indent extra st =
        Returned (failed indent (Inr p) e s)"
      unfolding n get_package_info_Suc [OF c g] by simp
    with xs show ?thesis by (simp add: failed_def emit_def)
  qed
qed

lemmas example_defs = example_run_def example_info_def example_artifact_def
  example_requires_def requirement_def example_package_def initial_state_def
lemmas engine_defs = gather_def describe_def pinned_def translate_license_def
  declared_lookup_def emit_def failed_def indent_str_def get_package_dependencies_def
  check_package_already_processed_def parse_existing_packages_def existing_package_def
  result_of_def trace_of_def dependencies_of_def escape_newlines_def
lemmas comparator_defs = compare_versions_def normalize_def replace_char_def isdigit_def
  is_digit_char_def int_of_digits_def



lemma check_not_False:
  assumes "list_ex (\<lambda>q. pn = pkg_name q \<and> compare_versions v (pkg_version q) \<noteq> Inr 1)
     (ps @ qs)"
  shows "fst (check_package_already_processed pn v ps qs st) \<noteq> Inr False"
proof -
  let ?P = "\<lambda>q. compare_versions v (pkg_version q) = Inr 1"
  let ?same = "filter (\<lambda>q. pn = pkg_name q) (ps @ qs)"
  from assms have "\<exists>q \<in> set ?same. \<not> ?P q" by (auto simp: list_ex_iff)
  then have "dropWhile ?P ?same \<noteq> []" by (simp add: dropWhile_eq_Nil_conv)
  then obtain q rest where q: "dropWhile ?P ?same = q # rest"
    by (cases "dropWhile ?P ?same") auto
  show ?thesis
    unfolding check_package_already_processed_def all_packages_loop_char q
    by (auto split: sum.splits)
qed

lemma check_not_Inl:
  assumes "list_all (\<lambda>q. pn = pkg_name q \<longrightarrow> compare_versions v (pkg_version q) \<noteq> Inl e)
     (ps @ qs)"
  shows "fst (check_package_already_processed pn v ps qs st) \<noteq> Inl e"
proof -
  let ?P = "\<lambda>q. compare_versions v (pkg_version q) = Inr 1"
  let ?same = "filter (\<lambda>q. pn = pkg_name q) (ps @ qs)"
  show ?thesis
  proof (cases "dropWhile ?P ?same")
    case Nil
    show ?thesis
      unfolding check_package_already_processed_def all_packages_loop_char Nil by simp
  next
    case (Cons q rest)
    then have "q \<in> set ?same" by (metis list.set_intros(1) set_dropWhileD)
    with assms have "compare_versions v (pkg_version q) \<noteq> Inl e"
      by (auto simp: list_all_iff)
    then show ?thesis
      unfolding check_package_already_processed_def all_packages_loop_char Cons
      by (auto split: sum.splits)
  qed
qed

lemma request_is_skipped:
  assumes ex: "list_ex (\<lambda>q. pn = pkg_name q \<and> compare_versions version (pkg_version q) \<noteq> Inr 1)
       (PROCESSED_PACKAGES st @ packages0 st)"
    and ok: "list_all (\<lambda>q. pn = pkg_name q \<longrightarrow>
         (case compare_versions version (pkg_version q) of Inl e \<Rightarrow> False | Inr result \<Rightarrow> True))
       (PROCESSED_PACKAGES st @ packages0 st)"
    and pn: "pn = takeWhile (\<lambda>c. c \<noteq> CHR ''['') package"
  shows "\<exists>warnings.
     get_package_info (Suc fuel) r package version True indent extra st =
       Returned (st\<lparr>trace := trace st @ map (Warning pn version) warnings\<rparr>)"
proof -
  let ?all = "PROCESSED_PACKAGES st @ packages0 st"
  obtain res st1 where c: "check_package_already_processed pn version
      (PROCESSED_PACKAGES st) (packages0 st) st = (res, st1)"
    by (cases "check_package_already_processed pn version
      (PROCESSED_PACKAGES st) (packages0 st) st")
  have "res \<noteq> Inl e" for e
  proof -
    from ok have "list_all (\<lambda>q. pn = pkg_name q \<longrightarrow>
        compare_versions version (pkg_version q) \<noteq> Inl e) ?all"
      by (auto simp: list_all_iff split: sum.splits)
    from check_not_Inl [OF this, of st] c show ?thesis by simp
  qed
  moreover from check_not_False [OF ex, of st] c have "res \<noteq> Inr False"
    by simp
  ultimately have res: "res = Inr True" by (cases res) auto
  from c have st1: "st1 = st\<lparr>trace := trace st @
      map (Warning pn version) (map pkg_version
        (takeWhile (\<lambda>p. compare_versions version (pkg_version p) = Inr 1)
          (filter (\<lambda>p. pn = pkg_name p) ?all)))\<rparr>"
    by (simp add: check_package_already_processed_def all_packages_loop_char comp_def)
  from c res have "get_package_info (Suc fuel) r package version True indent extra st =
      Returned st1"
    by (simp add: pn)
  with st1 show ?thesis by blast
qed

lemma describe_version:
  "describe r pn uv (Some m) st = (Inr p, st') \<Longrightarrow> m \<noteq> [] \<Longrightarrow> pkg_version p = Some m"
  by (auto simp: describe_def pinned_def split: sum.splits prod.splits)

lemma gather_wildcard:
  "v \<noteq> [] \<Longrightarrow> CHR ''*'' \<in> set v \<Longrightarrow> releases_of r pn = Inr releases \<Longrightarrow>
   fuzzy_version v releases = Inr m \<Longrightarrow>
   gather r pn (Some v) st =
     describe r pn (Some m) (Some m)
       (emit (FuzzyVersion (split_on CHR ''.'' v)) (emit (GetReleases pn) st))"
  by (simp add: gather_def pinned_def)

section \<open>The claims about the resolution engine\<close>




text \<open>
  C10: a root request is made without the list \<^verbatim>\<open>packages\<close>, so the skip check is not
  run, whatever the processed list holds. When the registry, the license and the artifact
  give a package for the request, and the bound on the depth covers the graph below it,
  the call returns, the package is the first of the result, and it is appended to the
  processed list after the entries that were there (the seeded ones among them). The same
  request below a root is dropped when an entry of its name is not older than it.
\<close>

theorem root_request_is_always_resolved:
  "(gather r (takeWhile (\<lambda>c. c \<noteq> CHR ''['') package) version
      (emit (Progress (indent_str indent) package (pinned extra) (pinned version))
         (st\<lparr>packages0 := []\<rparr>)) = (Inr p, stg) \<and>
    depth_within fuel r package version \<longrightarrow>
      pkg_name p = takeWhile (\<lambda>c. c \<noteq> CHR ''['') package \<and>
      (\<exists>st'. get_package_info fuel r package version False indent extra st = Returned st' \<and>
         take 1 (packages0 st') = [p] \<and>
         take (Suc (length (PROCESSED_PACKAGES st))) (PROCESSED_PACKAGES st') =
           PROCESSED_PACKAGES st @ [p])) \<and>
   (list_ex (\<lambda>q. takeWhile (\<lambda>c. c \<noteq> CHR ''['') package = pkg_name q \<and>
              compare_versions version (pkg_version q) \<noteq> Inr 1)
      (PROCESSED_PACKAGES st @ packages0 st) \<and>
    list_all (\<lambda>q. takeWhile (\<lambda>c. c \<noteq> CHR ''['') package = pkg_name q \<longrightarrow>
              (case compare_versions version (pkg_version q) of
                 Inl e \<Rightarrow> False | Inr result \<Rightarrow> True))
      (PROCESSED_PACKAGES st @ packages0 st) \<longrightarrow>
      (\<exists>warnings.
         get_package_info (Suc fuel) r package version True indent extra st =
           Returned (st\<lparr>trace := trace st @
             map (Warning (takeWhile (\<lambda>c. c \<noteq> CHR ''['') package) version) warnings\<rparr>)))"
proof -
  let ?pn = "takeWhile (\<lambda>c. c \<noteq> CHR ''['') package"
  let ?all = "PROCESSED_PACKAGES st @ packages0 st"
  have 1: "pkg_name p = ?pn \<and>
      (\<exists>st'. get_package_info fuel r package version False indent extra st = Returned st' \<and>
         take 1 (packages0 st') = [p] \<and>
         take (Suc (length (PROCESSED_PACKAGES st))) (PROCESSED_PACKAGES st') =
           PROCESSED_PACKAGES st @ [p])"
    if g: "gather r ?pn version
        (emit (Progress (indent_str indent) package (pinned extra) (pinned version))
           (st\<lparr>packages0 := []\<rparr>)) = (Inr p, stg)"
      and d: "depth_within fuel r package version"
  proof -
    have c: "(if \<not> False then (Inr False, st\<lparr>packages0 := []\<rparr>)
        else check_package_already_processed ?pn version
          (PROCESSED_PACKAGES st) (packages0 st) st) = (Inr False, st\<lparr>packages0 := []\<rparr>)"
      by simp
    from resolved_is_appended [OF c g d] gather_package [OF g] show ?thesis by simp
  qed
  have 2: "\<exists>warnings.
         get_package_info (Suc fuel) r package version True indent extra st =
           Returned (st\<lparr>trace := trace st @ map (Warning ?pn version) warnings\<rparr>)"
    if "list_ex (\<lambda>q. ?pn = pkg_name q \<and> compare_versions version (pkg_version q) \<noteq> Inr 1) ?all"
      and "list_all (\<lambda>q. ?pn = pkg_name q \<longrightarrow>
              (case compare_versions version (pkg_version q) of
                 Inl e \<Rightarrow> False | Inr result \<Rightarrow> True)) ?all"
    using that by (rule request_is_skipped) simp
  from 1 2 show ?thesis by blast
qed

theorem root_request_is_always_resolved_witness:
  "(\<exists>st'. get_package_info 1 example_run ''B'' (Some ''1.0'') False 0 None
             (parse_existing_packages [''B==1.0''] initial_state) = Returned st' \<and>
          take 1 (packages0 st') = [example_package ''B'' ''1.0''] \<and>
          take 2 (PROCESSED_PACKAGES st') =
            [existing_package ''B==1.0'', example_package ''B'' ''1.0'']) \<and>
   get_package_info 1 example_run ''B'' (Some ''1.0'') True 2 None
       (parse_existing_packages [''B==1.0''] initial_state) =
     Returned (parse_existing_packages [''B==1.0''] initial_state)"
proof -
  let ?st = "parse_existing_packages [''B==1.0''] initial_state"
  let ?stg = "?st\<lparr>trace := [Progress [] ''B'' None (Some ''1.0''),
    GetMetadata ''B'' (Some ''1.0''), GetArtifact ''B'' ''1.0'']\<rparr>"
  have g: "gather example_run (takeWhile (\<lambda>c. c \<noteq> CHR ''['') ''B'') (Some ''1.0'')
      (emit (Progress (indent_str 0) ''B'' (pinned None) (pinned (Some ''1.0'')))
         (?st\<lparr>packages0 := []\<rparr>)) = (Inr (example_package ''B'' ''1.0''), ?stg)"
    by (simp add: example_defs engine_defs)
  have d: "depth_within 1 example_run ''B'' (Some ''1.0'')"
    by (simp add: example_defs engine_defs)
  from root_request_is_always_resolved
    [where package = "''B''" and version = "Some ''1.0''" and st = ?st and r = example_run
      and indent = 0 and extra = None and p = "example_package ''B'' ''1.0''" and stg = ?stg
      and fuel = 1] g d
  obtain st' where "get_package_info 1 example_run ''B'' (Some ''1.0'') False 0 None ?st =
      Returned st'"
    "take 1 (packages0 st') = [example_package ''B'' ''1.0'']"
    "take (Suc (length (PROCESSED_PACKAGES ?st))) (PROCESSED_PACKAGES st') =
      PROCESSED_PACKAGES ?st @ [example_package ''B'' ''1.0'']"
    by blast
  then have a: "\<exists>st'. get_package_info 1 example_run ''B'' (Some ''1.0'') False 0 None ?st =
        Returned st' \<and>
      take 1 (packages0 st') = [example_package ''B'' ''1.0''] \<and>
      take 2 (PROCESSED_PACKAGES st') =
        [existing_package ''B==1.0'', example_package ''B'' ''1.0'']"
    by (simp add: parse_existing_packages_def initial_state_def numeral_2_eq_2)
  have b: "get_package_info 1 example_run ''B'' (Some ''1.0'') True 2 None ?st = Returned ?st"
    by (simp add: example_defs engine_defs comparator_defs)
  from a b show ?thesis by blast
qed



text \<open>
  C9 (a request whose name is in the processed list at a version that is not older is
  skipped). The processed list is seeded with \<open>B\<close> at 1.0rc1 and at 2.0, and \<open>F\<close>
  requires \<open>B==1.0.0\<close> and then \<open>C\<close>. The entry at 2.0 is not older than 1.0.0: the
  comparator answers -1. But the skip check reaches the entry at 1.0rc1 first, and there
  the comparator raises \<^verbatim>\<open>TypeError\<close> (the defect of C4): the request for \<open>B\<close> is
  not skipped, it raises. The exception ends the walk of \<open>F\<close>, which is reported as
  failed after it was appended, and \<open>C\<close> is never asked for.
\<close>

theorem skip_check_raises_before_the_newer_entry:
  "compare_versions (Some ''1.0.0'') (Some ''2.0'') = Inr (- 1) \<and>
   get_package_info 1 example_run ''B'' (Some ''1.0.0'') True 2 None
       (parse_existing_packages [''B==1.0rc1'', ''B==2.0''] initial_state) =
     Raised TypeError (parse_existing_packages [''B==1.0rc1'', ''B==2.0''] initial_state) \<and>
   map pkg_name (result_of (get_package_info 3 example_run ''F'' None False 0 None
       (parse_existing_packages [''B==1.0rc1'', ''B==2.0''] initial_state))) = [''F''] \<and>
   trace_of (get_package_info 3 example_run ''F'' None False 0 None
       (parse_existing_packages [''B==1.0rc1'', ''B==2.0''] initial_state)) =
     [Progress [] ''F'' None None, GetMetadata ''F'' None, GetArtifact ''F'' ''1.0'',
      FailedToGather [] (Inr (example_package ''F'' ''1.0'')) TypeError]"
  by (simp add: eval_nat_numeral example_defs engine_defs comparator_defs)

text \<open>
  C8, amended: a request with a wildcard pattern that the skip check does not stop (a
  root request, or a request below a root for which the check answers no) asks the
  registry for the release list. Each release is compared with the segments of the
  pattern that come before its first wildcard segment, position by position; the segments
  after the first wildcard are not compared. Where no release runs out of segments
  before a compared segment differs, and some release agrees on the compared segments,
  the last release of the list that agrees is the concrete version: the metadata is
  queried for it (in place of the pattern), and the package resolved at it is appended to
  the result. When the
  registry lists its releases in ascending order of the strings, the version selected is
  the greatest of those that agree. What happens when a release runs out of segments, or
  when no release agrees, is left open.
\<close>

theorem wildcard_request_selects_last_prefix_match:
  "(\<not> list_ex (runs_out (split_on CHR ''.'' v)) releases \<and>
    filter (prefix_matches (split_on CHR ''.'' v)) releases \<noteq> [] \<longrightarrow>
      fuzzy_version v releases =
        Inr (last (filter (prefix_matches (split_on CHR ''.'' v)) releases))) \<and>
   (sorted releases \<and> fuzzy_version v releases = Inr m \<longrightarrow>
      list_all (\<lambda>i. prefix_matches (split_on CHR ''.'' v) i \<longrightarrow> i \<le> m) releases) \<and>
   (v \<noteq> [] \<and> CHR ''*'' \<in> set v \<and> releases_of r pn = Inr releases \<and>
    fuzzy_version v releases = Inr m \<longrightarrow>
      gather r pn (Some v) s =
        describe r pn (Some m) (Some m)
          (emit (FuzzyVersion (split_on CHR ''.'' v)) (emit (GetReleases pn) s))) \<and>
   (v \<noteq> [] \<and> CHR ''*'' \<in> set v \<and>
    (if \<not> packages then (Inr False, st\<lparr>packages0 := []\<rparr>)
     else check_package_already_processed (takeWhile (\<lambda>c. c \<noteq> CHR ''['') package) (Some v)
            (PROCESSED_PACKAGES st) (packages0 st) st) = (Inr False, stc) \<and>
    releases_of r (takeWhile (\<lambda>c. c \<noteq> CHR ''['') package) = Inr releases \<and>
    \<not> list_ex (runs_out (split_on CHR ''.'' v)) releases \<and>
    filter (prefix_matches (split_on CHR ''.'' v)) releases \<noteq> [] \<and>
    m = last (filter (prefix_matches (split_on CHR ''.'' v)) releases) \<and>
    describe r (takeWhile (\<lambda>c. c \<noteq> CHR ''['') package) (Some m) (Some m)
      (emit (FuzzyVersion (split_on CHR ''.'' v))
         (emit (GetReleases (takeWhile (\<lambda>c. c \<noteq> CHR ''['') package))
            (emit (Progress (indent_str indent) package (pinned extra) (Some v)) stc))) =
      (Inr p, stg) \<and>
    depth_within fuel r package (Some v) \<longrightarrow>
      gather r (takeWhile (\<lambda>c. c \<noteq> CHR ''['') package) (Some v)
          (emit (Progress (indent_str indent) package (pinned extra) (Some v)) stc) =
        (Inr p, stg) \<and>
      pkg_name p = takeWhile (\<lambda>c. c \<noteq> CHR ''['') package \<and>
      (m = [] \<or> pkg_version p = Some m) \<and>
      (\<exists>st'. get_package_info fuel r package (Some v) packages indent extra st = Returned st' \<and>
         take (Suc (length (packages0 stc))) (packages0 st') = packages0 stc @ [p]))"
proof -
  let ?pn = "takeWhile (\<lambda>c. c \<noteq> CHR ''['') package"
  let ?P = "prefix_matches (split_on CHR ''.'' v)"
  let ?progress = "Progress (indent_str indent) package (pinned extra) (Some v)"
  have 1: "fuzzy_version v releases = Inr (last (filter ?P releases))"
    if "\<not> list_ex (runs_out (split_on CHR ''.'' v)) releases" "filter ?P releases \<noteq> []"
    using that by (rule fuzzy_version_last)
  have 2: "list_all (\<lambda>i. ?P i \<longrightarrow> i \<le> m) releases"
    if "sorted releases" "fuzzy_version v releases = Inr m"
    using that by (rule fuzzy_version_greatest)
  have 4: "gather r pn (Some v) s =
        describe r pn (Some m) (Some m)
          (emit (FuzzyVersion (split_on CHR ''.'' v)) (emit (GetReleases pn) s))"
    if "v \<noteq> []" "CHR ''*'' \<in> set v" "releases_of r pn = Inr releases"
      "fuzzy_version v releases = Inr m"
    using that by (rule gather_wildcard)
  have 3: "gather r ?pn (Some v) (emit ?progress stc) = (Inr p, stg) \<and>
      pkg_name p = ?pn \<and> (m = [] \<or> pkg_version p = Some m) \<and>
      (\<exists>st'. get_package_info fuel r package (Some v) packages indent extra st = Returned st' \<and>
         take (Suc (length (packages0 stc))) (packages0 st') = packages0 stc @ [p])"
    if v: "v \<noteq> []" "CHR ''*'' \<in> set v"
      and c: "(if \<not> packages then (Inr False, st\<lparr>packages0 := []\<rparr>)
         else check_package_already_processed ?pn (Some v)
            (PROCESSED_PACKAGES st) (packages0 st) st) = (Inr False, stc)"
      and rel: "releases_of r ?pn = Inr releases"
      and ok: "\<not> list_ex (runs_out (split_on CHR ''.'' v)) releases" "filter ?P releases \<noteq> []"
      and m: "m = last (filter ?P releases)"
      and d: "describe r ?pn (Some m) (Some m)
          (emit (FuzzyVersion (split_on CHR ''.'' v))
             (emit (GetReleases ?pn) (emit ?progress stc))) = (Inr p, stg)"
      and depth: "depth_within fuel r package (Some v)"
  proof -
    from fuzzy_version_last [OF ok] m have f: "fuzzy_version v releases = Inr m" by simp
    from gather_wildcard [OF v rel f] d
    have g: "gather r ?pn (Some v) (emit ?progress stc) = (Inr p, stg)" by simp
    have pv: "pinned (Some v) = Some v" using v by (simp add: pinned_def)
    from g have g': "gather r ?pn (Some v)
        (emit (Progress (indent_str indent) package (pinned extra) (pinned (Some v))) stc) =
        (Inr p, stg)" by (simp add: pv)
    from resolved_is_appended [OF c g' depth] have
      "\<exists>st'. get_package_info fuel r package (Some v) packages indent extra st = Returned st' \<and>
         take (Suc (length (packages0 stc))) (packages0 st') = packages0 stc @ [p]" by blast
    moreover from describe_version [OF d] have "m = [] \<or> pkg_version p = Some m" by blast
    ultimately show ?thesis using g gather_package [OF g] by blast
  qed
  from 1 2 4 3 show ?thesis by blast
qed

theorem wildcard_request_selects_last_prefix_match_witness:
  "fuzzy_version ''2.*'' [''1.0'', ''2.1.0'', ''2.0'', ''3.0''] = Inr ''2.0'' \<and>
   (\<exists>st'. get_package_info 1 example_run ''B'' (Some ''2.*'') False 0 None initial_state =
            Returned st' \<and>
          take 1 (packages0 st') = [example_package ''B'' ''2.0''])"
proof -
  let ?rel = "[''1.0'', ''2.1.0'', ''2.0'', ''3.0'']"
  let ?stg = "initial_state\<lparr>trace := [Progress [] ''B'' None (Some ''2.*''),
    GetReleases ''B'', FuzzyVersion [''2'', ''*''], GetMetadata ''B'' (Some ''2.0''),
    GetArtifact ''B'' ''2.0'']\<rparr>"
  have ok: "\<not> list_ex (runs_out (split_on CHR ''.'' ''2.*'')) ?rel"
    "filter (prefix_matches (split_on CHR ''.'' ''2.*'')) ?rel \<noteq> []"
    "''2.0'' = last (filter (prefix_matches (split_on CHR ''.'' ''2.*'')) ?rel)"
    by (simp_all add: runs_out_def prefix_matches_def fixed_prefix_def)
  have c: "(if \<not> False then (Inr False, initial_state\<lparr>packages0 := []\<rparr>)
     else check_package_already_processed (takeWhile (\<lambda>c. c \<noteq> CHR ''['') ''B'') (Some ''2.*'')
            (PROCESSED_PACKAGES initial_state) (packages0 initial_state) initial_state) =
     (Inr False, initial_state)"
    by (simp add: initial_state_def)
  have rel: "releases_of example_run (takeWhile (\<lambda>c. c \<noteq> CHR ''['') ''B'') = Inr ?rel"
    by (simp add: example_run_def)
  have d: "describe example_run (takeWhile (\<lambda>c. c \<noteq> CHR ''['') ''B'') (Some ''2.0'') (Some ''2.0'')
      (emit (FuzzyVersion (split_on CHR ''.'' ''2.*''))
         (emit (GetReleases (takeWhile (\<lambda>c. c \<noteq> CHR ''['') ''B''))
            (emit (Progress (indent_str 0) ''B'' (pinned None) (Some ''2.*'')) initial_state))) =
      (Inr (example_package ''B'' ''2.0''), ?stg)"
    by (simp add: example_defs engine_defs)
  have depth: "depth_within 1 example_run ''B'' (Some ''2.*'')"
    by (simp add: example_defs engine_defs fuzzy_version_def last_item_def)
  note t = wildcard_request_selects_last_prefix_match
    [where v = "''2.*''" and releases = ?rel and m = "''2.0''" and packages = False
      and st = initial_state and stc = initial_state and r = example_run and package = "''B''"
      and indent = 0 and extra = None and p = "example_package ''B'' ''2.0''" and stg = ?stg
      and fuel = 1 and pn = "''B''" and s = initial_state]
  have v: "''2.*'' \<noteq> []" "CHR ''*'' \<in> set ''2.*''" by simp_all
  from t ok have a: "fuzzy_version ''2.*'' ?rel = Inr ''2.0''" by simp
  from t v ok c rel d depth
  obtain st' where "get_package_info 1 example_run ''B'' (Some ''2.*'') False 0 None initial_state =
      Returned st'"
    "take (Suc (length (packages0 initial_state))) (packages0 st') =
      packages0 initial_state @ [example_package ''B'' ''2.0'']"
    by blast
  then have "\<exists>st'. get_package_info 1 example_run ''B'' (Some ''2.*'') False 0 None initial_state =
      Returned st' \<and> take 1 (packages0 st') = [example_package ''B'' ''2.0'']"
    by (simp add: initial_state_def)
  with a show ?thesis by blast
qed

end
